theory Spec2Isabelle
  imports Complex_Main
begin

section \<open>Data model\<close>

text \<open>
  The order controller (\<^verbatim>\<open>controllers/orderController.js\<close>) and the product model
  (\<^verbatim>\<open>models/Product.js\<close>) are embedded as pure functions over an explicit database
  state. JavaScript numbers that carry money are idealised as rationals (no rounding of
  the arithmetic itself, no NaN); stock and quantities are integers. A request field that
  may be absent is an \<open>option\<close>; JavaScript truthiness of such a field is written out
  (\<open>truthy\<close>, \<open>truthyNum\<close>, \<open>truthyInt\<close>).
\<close>

type_synonym amount = rat

definition truthy :: "string option \<Rightarrow> bool" where
  "truthy s = (case s of None \<Rightarrow> False | Some v \<Rightarrow> v \<noteq> [])"

definition truthyNum :: "amount option \<Rightarrow> bool" where
  "truthyNum x = (case x of None \<Rightarrow> False | Some v \<Rightarrow> v \<noteq> 0)"

definition truthyInt :: "int option \<Rightarrow> bool" where
  "truthyInt x = (case x of None \<Rightarrow> False | Some v \<Rightarrow> v \<noteq> 0)"

subsection \<open>Product (models/Product.js)\<close>

record size_entry =
  se_size :: string
  se_price :: amount

text \<open>
  \<open>p_price\<close> is the flat \<^verbatim>\<open>product.price\<close> that \<^verbatim>\<open>createOrder\<close> reads; the
  schema declares no such path, so it is \<open>None\<close> on every stored document.
  \<open>p_stock\<close> and \<open>p_lowStockAlert\<close> are \<^verbatim>\<open>inventory.stock\<close> and
  \<^verbatim>\<open>inventory.lowStockAlert\<close>; \<open>p_images\<close> holds the image urls.
\<close>

record product =
  p_id :: string
  p_name :: string
  p_sizes :: "size_entry list"
  p_price :: "amount option"
  p_images :: "string list"
  p_stock :: int
  p_lowStockAlert :: int
  p_inStock :: bool

datatype failure =
    AdminForbidden
  | ItemsRequired
  | AddressPaymentRequired
  | EmailPhoneRequired
  | InvalidItemData
  | ProductNotFound string
  | InsufficientStock string int int
  | AmountValidationFailed
  | ValidationFailed "string list"
  | ServerError
  | OrderNotFound
  | InvalidTransition string string
  | TrackingRequired
  | InsufficientStockError

text \<open>The HTTP status each failure is answered with.\<close>

fun statusCode :: "failure \<Rightarrow> nat" where
  "statusCode AdminForbidden = 403"
| "statusCode ItemsRequired = 400"
| "statusCode AddressPaymentRequired = 400"
| "statusCode EmailPhoneRequired = 400"
| "statusCode InvalidItemData = 400"
| "statusCode (ProductNotFound n) = 400"
| "statusCode (InsufficientStock n a r) = 400"
| "statusCode AmountValidationFailed = 400"
| "statusCode (ValidationFailed es) = 400"
| "statusCode ServerError = 500"
| "statusCode OrderNotFound = 404"
| "statusCode (InvalidTransition c t) = 400"
| "statusCode TrackingRequired = 400"
| "statusCode InsufficientStockError = 500"

text \<open>
  The validators of the product schema on the modelled paths, with the messages the
  schema gives them: name required and at most 100 characters, size price, stock and
  low-stock threshold not negative. The size enumeration has no message of its own in the
  schema, so a size outside it is reported with the default enum message of the library,
  \<^verbatim>\<open>`{VALUE}` is not a valid enum value for path `{PATH}`.\<close> There is one error
  for each offending entry of \<^verbatim>\<open>sizes\<close>.
\<close>

definition sizeErrors :: "size_entry \<Rightarrow> string list" where
  "sizeErrors s =
     (if se_size s \<notin> set [''250g'', ''500g'', ''1000g'']
      then [''`'' @ se_size s @ ''` is not a valid enum value for path `size`.''] else []) @
     (if se_price s < 0 then [''Price cannot be negative''] else [])"

definition productErrors :: "product \<Rightarrow> string list" where
  "productErrors p =
     (if p_name p = [] then [''Product name is required''] else []) @
     (if length (p_name p) > 100 then [''Product name cannot exceed 100 characters''] else []) @
     concat (map sizeErrors (p_sizes p)) @
     (if p_stock p < 0 then [''Stock cannot be negative''] else []) @
     (if p_lowStockAlert p < 0 then [''Low stock alert cannot be negative''] else [])"

text \<open>
  \<^verbatim>\<open>save()\<close>: schema validation runs first and rejects the document; then the
  pre-save hook recomputes \<^verbatim>\<open>inStock\<close> (its slug generation touches no modelled
  field).
\<close>

definition preSave :: "product \<Rightarrow> product" where
  "preSave p = p\<lparr>p_inStock := (p_stock p > 0)\<rparr>"

definition save :: "product \<Rightarrow> failure + product" where
  "save p = (if productErrors p \<noteq> [] then Inl (ValidationFailed (productErrors p))
             else Inr (preSave p))"

definition checkAvailability :: "product \<Rightarrow> int \<Rightarrow> bool" where
  "checkAvailability p quantity = (p_inStock p \<and> p_stock p \<ge> quantity)"

definition updateStock :: "product \<Rightarrow> int \<Rightarrow> failure + product" where
  "updateStock p newStock = save (p\<lparr>p_stock := newStock, p_inStock := (newStock > 0)\<rparr>)"

definition decreaseStock :: "product \<Rightarrow> int \<Rightarrow> failure + product" where
  "decreaseStock p quantity =
     (if p_stock p \<ge> quantity
      then save (p\<lparr>p_stock := p_stock p - quantity, p_inStock := (p_stock p - quantity > 0)\<rparr>)
      else Inl InsufficientStockError)"

definition increaseStock :: "product \<Rightarrow> int \<Rightarrow> failure + product" where
  "increaseStock p quantity = save (p\<lparr>p_stock := p_stock p + quantity, p_inStock := True\<rparr>)"

subsection \<open>Order and request\<close>

record order_item =
  oi_product :: string
  oi_name :: string
  oi_price :: amount
  oi_quantity :: int
  oi_size :: string
  oi_image :: string
  oi_itemTotal :: amount

record stock_update =
  su_productId :: string
  su_quantity :: int
  su_currentStock :: int

record address =
  a_firstName :: "string option"
  a_lastName :: "string option"
  a_email :: "string option"
  a_phone :: "string option"
  a_address :: "string option"
  a_city :: "string option"
  a_county :: "string option"
  a_country :: "string option"
  a_postalCode :: "string option"

record tracking_entry =
  te_status :: string
  te_location :: "string option"
  te_message :: string
  te_timestamp :: nat

record order =
  o_id :: string
  o_orderNumber :: string
  o_user :: string
  o_items :: "order_item list"
  o_shippingAddress :: address
  o_subtotal :: amount
  o_shippingCost :: amount
  o_tax :: amount
  o_total :: amount
  o_paymentMethod :: string
  o_paymentStatus :: string
  o_status :: string
  o_notes :: string
  o_trackingHistory :: "tracking_entry list"
  o_trackingNumber :: "string option"
  o_adminNotes :: "string option"
  o_statusUpdatedAt :: "nat option"

record item =
  i_product :: "string option"
  i_name :: "string option"
  i_price :: "amount option"
  i_quantity :: "int option"
  i_size :: "string option"
  i_image :: "string option"

record user =
  u_id :: string
  u_email :: string
  u_userType :: string
  u_role :: string

record request =
  r_user :: user
  r_shippingAddress :: "address option"
  r_paymentMethod :: "string option"
  r_items :: "item list option"
  r_subtotal :: amount
  r_shippingCost :: amount
  r_tax :: amount
  r_totalAmount :: amount
  r_notes :: "string option"

record database =
  products :: "string \<rightharpoonup> product"
  orders :: "order list"

text \<open>
  What the controller takes from modules that are not part of the embedded sources: the
  input sanitizers of \<^verbatim>\<open>utils/inputSanitizer.js\<close>, the validators of the Order
  schema, the ObjectId cast of the database driver, and the clock, the uuid generator and
  the id given to a new document. They are parameters of the model.
\<close>

record env =
  sanitizeAmount :: "amount \<Rightarrow> amount"
  sanitizeObject :: "address \<Rightarrow> address"
  sanitizeEmail :: "string option \<Rightarrow> string option"
  sanitizePhone :: "string option \<Rightarrow> string option"
  orderErrors :: "order \<Rightarrow> string list"
  isObjectId :: "string \<Rightarrow> bool"
  uuidv4 :: string
  dateNow :: nat
  newObjectId :: string

datatype reply =
    Failure failure
  | Created order "product list"
  | Updated order

section \<open>Order placement (createOrder)\<close>

definition isAdmin :: "user \<Rightarrow> bool" where
  "isAdmin u = (u_userType u = ''admin'' \<or> u_role u = ''admin'' \<or> u_role u = ''super-admin'')"

subsection \<open>Order number\<close>

definition digitChar :: "nat \<Rightarrow> char" where
  "digitChar d = ''0123456789'' ! d"

fun showNat :: "nat \<Rightarrow> string" where
  "showNat n = (if n < 10 then [digitChar n] else showNat (n div 10) @ [digitChar (n mod 10)])"

definition sliceLast :: "nat \<Rightarrow> string \<Rightarrow> string" where
  "sliceLast k s = drop (length s - k) s"

definition toUpperChar :: "char \<Rightarrow> char" where
  "toUpperChar c =
     (case map_of (zip ''abcdefghijklmnopqrstuvwxyz'' ''ABCDEFGHIJKLMNOPQRSTUVWXYZ'') c of
        Some u \<Rightarrow> u
      | None \<Rightarrow> c)"

text \<open>
  \<^verbatim>\<open>`ORD-${Date.now().toString().slice(-8)}-${uuidv4().split('-')[0].toUpperCase()}`\<close>
\<close>

definition orderNumber :: "env \<Rightarrow> string" where
  "orderNumber env =
     ''ORD-'' @ sliceLast 8 (showNat (dateNow env)) @ ''-'' @
     map toUpperChar (takeWhile (\<lambda>c. c \<noteq> CHR ''-'') (uuidv4 env))"

subsection \<open>The item loop\<close>

text \<open>
  The structural check of a line item,
  \<^verbatim>\<open>!item.product || !item.name || !item.price || !item.quantity || !item.size\<close>:
  a field passes when it is present and truthy (a non-empty string, a non-zero number).
\<close>

definition validItem :: "item \<Rightarrow> bool" where
  "validItem it =
     (truthy (i_product it) \<and> truthy (i_name it) \<and> truthyNum (i_price it) \<and>
      truthyInt (i_quantity it) \<and> truthy (i_size it))"

text \<open>
  \<^verbatim>\<open>Product.findById(id).session(session)\<close>: an id that does not cast to an ObjectId
  raises a CastError, which the handler's \<^verbatim>\<open>catch\<close> answers with 500; otherwise the
  stored document or \<^verbatim>\<open>null\<close>.
\<close>

definition findById :: "env \<Rightarrow> (string \<rightharpoonup> product) \<Rightarrow> string \<Rightarrow> failure + product option" where
  "findById env ps pid = (if isObjectId env pid then Inr (ps pid) else Inl ServerError)"

text \<open>\<^verbatim>\<open>a || b\<close> on an optional number \<open>a\<close>: \<open>a\<close> when it is truthy, else \<open>b\<close>.\<close>

definition orNum :: "amount option \<Rightarrow> amount \<Rightarrow> amount" where
  "orNum a b = (case a of None \<Rightarrow> b | Some v \<Rightarrow> if v = 0 then b else v)"

text \<open>
  \<^verbatim>\<open>parseFloat(product.sizes.find(s => s.size === item.size)?.price || product.price || item.price)\<close>;
  \<^verbatim>\<open>parseFloat\<close> of a number is that number.
\<close>

definition resolvePrice :: "product \<Rightarrow> string \<Rightarrow> amount \<Rightarrow> amount" where
  "resolvePrice p sz clientPrice =
     orNum (map_option se_price (find (\<lambda>s. se_size s = sz) (p_sizes p)))
       (orNum (p_price p) clientPrice)"

text \<open>\<^verbatim>\<open>item.image || product.images?.[0]?.url || '/default-product.jpg'\<close>\<close>

definition resolveImage :: "product \<Rightarrow> string option \<Rightarrow> string" where
  "resolveImage p img =
     (case img of
        Some u \<Rightarrow> if u \<noteq> [] then u
                  else (case p_images p of [] \<Rightarrow> ''/default-product.jpg''
                        | v # _ \<Rightarrow> if v \<noteq> [] then v else ''/default-product.jpg'')
      | None \<Rightarrow> (case p_images p of [] \<Rightarrow> ''/default-product.jpg''
                  | v # _ \<Rightarrow> if v \<noteq> [] then v else ''/default-product.jpg''))"

text \<open>
  One pass of the loop body on the validated fields of an item: look the product up,
  check the stock, resolve the price, and build the order line and the stock update.
\<close>

definition processFields ::
  "env \<Rightarrow> (string \<rightharpoonup> product) \<Rightarrow> string \<Rightarrow> string \<Rightarrow> amount \<Rightarrow> int \<Rightarrow> string \<Rightarrow> string option
     \<Rightarrow> failure + (order_item \<times> stock_update)" where
  "processFields env ps pid nm pr q sz img =
     (case findById env ps pid of
        Inl e \<Rightarrow> Inl e
      | Inr None \<Rightarrow> Inl (ProductNotFound nm)
      | Inr (Some p) \<Rightarrow>
          if p_stock p < q then Inl (InsufficientStock (p_name p) (p_stock p) q)
          else
            let itemPrice = resolvePrice p sz pr;
                itemQuantity = q;
                itemTotal = itemPrice * of_int itemQuantity
            in Inr (\<lparr>oi_product = p_id p, oi_name = nm, oi_price = itemPrice,
                      oi_quantity = itemQuantity, oi_size = sz,
                      oi_image = resolveImage p img, oi_itemTotal = itemTotal\<rparr>,
                    \<lparr>su_productId = p_id p, su_quantity = itemQuantity,
                      su_currentStock = p_stock p\<rparr>))"

definition processItem ::
  "env \<Rightarrow> (string \<rightharpoonup> product) \<Rightarrow> item \<Rightarrow> failure + (order_item \<times> stock_update)" where
  "processItem env ps it =
     (case (i_product it, i_name it, i_price it, i_quantity it, i_size it) of
        (Some pid, Some nm, Some pr, Some q, Some sz) \<Rightarrow>
          if validItem it then processFields env ps pid nm pr q sz (i_image it)
          else Inl InvalidItemData
      | _ \<Rightarrow> Inl InvalidItemData)"

text \<open>
  The \<^verbatim>\<open>for (const item of items)\<close> loop with its three accumulators
  (\<^verbatim>\<open>calculatedSubtotal\<close>, \<^verbatim>\<open>orderItems\<close>, \<^verbatim>\<open>stockUpdates\<close>); it only reads
  the database and stops at the first failing item.
\<close>

fun processItems ::
  "env \<Rightarrow> (string \<rightharpoonup> product) \<Rightarrow> item list \<Rightarrow> amount \<times> order_item list \<times> stock_update list
     \<Rightarrow> failure + (amount \<times> order_item list \<times> stock_update list)" where
  "processItems env ps [] acc = Inr acc"
| "processItems env ps (it # its) (calculatedSubtotal, orderItems, stockUpdates) =
     (case processItem env ps it of
        Inl e \<Rightarrow> Inl e
      | Inr (oi, su) \<Rightarrow>
          processItems env ps its
            (calculatedSubtotal + oi_itemTotal oi, orderItems @ [oi], stockUpdates @ [su]))"

subsection \<open>Amounts, the order document and the stock updates\<close>

text \<open>
  \<^verbatim>\<open>finalSubtotal\<close>, \<^verbatim>\<open>finalShippingCost\<close>, \<^verbatim>\<open>finalTax\<close> (16% VAT) and
  \<^verbatim>\<open>calculatedTotal\<close>, each passed through \<^verbatim>\<open>sanitizeAmount\<close>.
\<close>

definition finalSubtotal :: "env \<Rightarrow> amount \<Rightarrow> amount" where
  "finalSubtotal env calculatedSubtotal = sanitizeAmount env calculatedSubtotal"

definition finalShippingCost :: "env \<Rightarrow> amount \<Rightarrow> amount" where
  "finalShippingCost env shippingCost = sanitizeAmount env shippingCost"

definition finalTax :: "env \<Rightarrow> amount \<Rightarrow> amount" where
  "finalTax env calculatedSubtotal =
     sanitizeAmount env (finalSubtotal env calculatedSubtotal * (16 / 100))"

definition calculatedTotal :: "env \<Rightarrow> amount \<Rightarrow> amount \<Rightarrow> amount" where
  "calculatedTotal env calculatedSubtotal shippingCost =
     sanitizeAmount env
       (finalSubtotal env calculatedSubtotal + finalShippingCost env shippingCost +
        finalTax env calculatedSubtotal)"

text \<open>
  \<^verbatim>\<open>sanitizedAddress\<close>: the sanitized object with its email and phone replaced by
  the sanitized email and phone of the submitted address.
\<close>

definition sanitizedAddress :: "env \<Rightarrow> address \<Rightarrow> address" where
  "sanitizedAddress env shippingAddress =
     (sanitizeObject env shippingAddress)
       \<lparr>a_email := sanitizeEmail env (a_email shippingAddress),
        a_phone := sanitizePhone env (a_phone shippingAddress)\<rparr>"

definition orString :: "string option \<Rightarrow> string \<Rightarrow> string" where
  "orString a b = (case a of None \<Rightarrow> b | Some v \<Rightarrow> if v = [] then b else v)"

text \<open>The document handed to \<^verbatim>\<open>new Order({...})\<close>.\<close>

definition newOrder ::
  "env \<Rightarrow> request \<Rightarrow> address \<Rightarrow> string \<Rightarrow> amount \<Rightarrow> order_item list \<Rightarrow> order" where
  "newOrder env req addr paymentMethod calculatedSubtotal orderItems =
     \<lparr>o_id = newObjectId env,
      o_orderNumber = orderNumber env,
      o_user = u_id (r_user req),
      o_items = orderItems,
      o_shippingAddress =
        addr\<lparr>a_country := Some (orString (a_country addr) ''Kenya''),
             a_postalCode := Some (orString (a_postalCode addr) [])\<rparr>,
      o_subtotal = finalSubtotal env calculatedSubtotal,
      o_shippingCost = finalShippingCost env (r_shippingCost req),
      o_tax = finalTax env calculatedSubtotal,
      o_total = calculatedTotal env calculatedSubtotal (r_shippingCost req),
      o_paymentMethod = paymentMethod,
      o_paymentStatus = (if paymentMethod = ''cod'' then ''pending'' else ''paid''),
      o_status = ''confirmed'',
      o_notes = orString (r_notes req) [],
      o_trackingHistory =
        [\<lparr>te_status = ''confirmed'', te_location = None,
          te_message = ''Order received and confirmed'', te_timestamp = dateNow env\<rparr>],
      o_trackingNumber = None,
      o_adminNotes = None,
      o_statusUpdatedAt = None\<rparr>"

text \<open>
  \<^verbatim>\<open>Product.findByIdAndUpdate(id, {$inc: {'inventory.stock': -quantity},
  $set: {inStock: newStock > 0}}, {session, new: true})\<close> with
  \<^verbatim>\<open>newStock = update.currentStock - update.quantity\<close>: the increment applies to the
  stock the document has now, the flag is computed from the stock read in the item loop.
  No validator and no save hook runs on this path.
\<close>

definition findByIdAndUpdate ::
  "(string \<rightharpoonup> product) \<Rightarrow> stock_update \<Rightarrow> (string \<rightharpoonup> product) \<times> product option" where
  "findByIdAndUpdate ps update =
     (case ps (su_productId update) of
        None \<Rightarrow> (ps, None)
      | Some p \<Rightarrow>
          let newStock = su_currentStock update - su_quantity update;
              updatedProduct = p\<lparr>p_stock := p_stock p - su_quantity update,
                                 p_inStock := (newStock > 0)\<rparr>
          in (ps(su_productId update \<mapsto> updatedProduct), Some updatedProduct))"

text \<open>
  The \<^verbatim>\<open>for (const update of stockUpdates)\<close> loop; the second component collects
  the products a low-stock alert is sent for.
\<close>

fun applyStockUpdates ::
  "(string \<rightharpoonup> product) \<Rightarrow> stock_update list \<Rightarrow> product list
     \<Rightarrow> (string \<rightharpoonup> product) \<times> product list" where
  "applyStockUpdates ps [] alerts = (ps, alerts)"
| "applyStockUpdates ps (update # updates) alerts =
     (case findByIdAndUpdate ps update of
        (ps', None) \<Rightarrow> applyStockUpdates ps' updates alerts
      | (ps', Some updatedProduct) \<Rightarrow>
          applyStockUpdates ps' updates
            (if p_stock updatedProduct \<le> p_lowStockAlert updatedProduct
             then alerts @ [updatedProduct] else alerts))"

subsection \<open>The handler\<close>

text \<open>
  Everything runs in one transaction: each failing path aborts it, so the database it
  returns is the one it was given; only the successful path commits the saved order and
  the stock updates. A missing \<^verbatim>\<open>shippingAddress\<close> makes
  \<^verbatim>\<open>shippingAddress.email\<close> raise a TypeError, answered with 500 by the
  \<^verbatim>\<open>catch\<close> block, as is every error other than a schema ValidationError.
\<close>

definition placeOrder ::
  "env \<Rightarrow> database \<Rightarrow> request \<Rightarrow> address \<Rightarrow> string
     \<Rightarrow> amount \<times> order_item list \<times> stock_update list \<Rightarrow> database \<times> reply" where
  "placeOrder env db req addr paymentMethod acc =
     (case acc of (calculatedSubtotal, orderItems, stockUpdates) \<Rightarrow>
        let clientTotal = sanitizeAmount env (r_totalAmount req) in
        if \<bar>calculatedTotal env calculatedSubtotal (r_shippingCost req) - clientTotal\<bar> > 1
        then (db, Failure AmountValidationFailed)
        else
          let order = newOrder env req addr paymentMethod calculatedSubtotal orderItems in
          if orderErrors env order \<noteq> []
          then (db, Failure (ValidationFailed (orderErrors env order)))
          else
            (case applyStockUpdates (products db) stockUpdates [] of
               (ps', alerts) \<Rightarrow>
                 (\<lparr>products = ps', orders = orders db @ [order]\<rparr>, Created order alerts)))"

definition createOrder :: "env \<Rightarrow> database \<Rightarrow> request \<Rightarrow> database \<times> reply" where
  "createOrder env db req =
     (if isAdmin (r_user req) then (db, Failure AdminForbidden)
      else
        (case r_shippingAddress req of
           None \<Rightarrow> (db, Failure ServerError)
         | Some shippingAddress \<Rightarrow>
             (case r_items req of
                None \<Rightarrow> (db, Failure ItemsRequired)
              | Some [] \<Rightarrow> (db, Failure ItemsRequired)
              | Some (it # its) \<Rightarrow>
                  (case r_paymentMethod req of
                     None \<Rightarrow> (db, Failure AddressPaymentRequired)
                   | Some paymentMethod \<Rightarrow>
                       if paymentMethod = [] then (db, Failure AddressPaymentRequired)
                       else if \<not> truthy (a_email (sanitizedAddress env shippingAddress)) \<or>
                               \<not> truthy (a_phone (sanitizedAddress env shippingAddress))
                       then (db, Failure EmailPhoneRequired)
                       else
                         (case processItems env (products db) (it # its) (0, [], []) of
                            Inl e \<Rightarrow> (db, Failure e)
                          | Inr acc \<Rightarrow>
                              placeOrder env db req (sanitizedAddress env shippingAddress)
                                paymentMethod acc)))))"

section \<open>Order status (updateOrderStatus)\<close>

record status_body =
  b_status :: "string option"
  b_trackingNumber :: "string option"
  b_adminNotes :: "string option"
  b_location :: "string option"
  b_message :: "string option"

text \<open>The \<^verbatim>\<open>validTransitions\<close> object, in the order it is written.\<close>

definition validTransitions :: "(string \<times> string list) list" where
  "validTransitions =
     [(''pending'', [''confirmed'', ''cancelled'', ''processing'']),
      (''confirmed'', [''processing'', ''cancelled'', ''shipped'']),
      (''processing'', [''shipped'', ''cancelled'']),
      (''shipped'', [''delivered'', ''returned'']),
      (''delivered'', [''returned'']),
      (''cancelled'', []),
      (''returned'', [])]"

text \<open>
  The names every plain object inherits from \<^verbatim>\<open>Object.prototype\<close>. A property
  read on the \<^verbatim>\<open>validTransitions\<close> literal finds them as well as its own seven
  keys; what it finds there is a function (the prototype object itself for
  \<^verbatim>\<open>__proto__\<close>), which is truthy and has no \<^verbatim>\<open>includes\<close>.
\<close>

definition objectPrototypeKeys :: "string list" where
  "objectPrototypeKeys =
     [''constructor'', ''__defineGetter__'', ''__defineSetter__'', ''hasOwnProperty'',
      ''__lookupGetter__'', ''__lookupSetter__'', ''isPrototypeOf'', ''propertyIsEnumerable'',
      ''toString'', ''valueOf'', ''__proto__'', ''toLocaleString'']"

text \<open>
  \<^verbatim>\<open>const allowed = validTransitions[order.status] || []\<close>: the list of an own key,
  the empty list when the lookup is \<^verbatim>\<open>undefined\<close>, and \<open>None\<close> when the status
  names an inherited property, so that \<^verbatim>\<open>allowed\<close> is no array.
\<close>

definition allowed :: "string \<Rightarrow> string list option" where
  "allowed current =
     (case map_of validTransitions current of
        Some ts \<Rightarrow> Some ts
      | None \<Rightarrow> if current \<in> set objectPrototypeKeys then None else Some [])"

text \<open>
  \<^verbatim>\<open>if (!allowed.includes(status)) { res.status(400); throw ... }\<close>: on a value that
  is no array the call of \<^verbatim>\<open>includes\<close> raises a TypeError before any status is
  set, which the error middleware answers with 500.
\<close>

definition transitionCheck :: "string \<Rightarrow> string \<Rightarrow> failure option" where
  "transitionCheck current target =
     (case allowed current of
        None \<Rightarrow> Some ServerError
      | Some ts \<Rightarrow>
          if List.member ts target then None else Some (InvalidTransition current target))"

text \<open>A value interpolated into a template string: \<^verbatim>\<open>undefined\<close> prints as such.\<close>

definition interpolate :: "string option \<Rightarrow> string" where
  "interpolate s = (case s of None \<Rightarrow> ''undefined'' | Some v \<Rightarrow> v)"

definition historyEntry :: "env \<Rightarrow> order \<Rightarrow> status_body \<Rightarrow> tracking_entry" where
  "historyEntry env order body =
     \<lparr>te_status = orString (b_status body) (o_status order),
      te_location = Some (orString (b_location body) []),
      te_message =
        orString (b_message body)
          (''Order status updated to '' @ interpolate (b_status body) @
           (if truthy (b_trackingNumber body)
            then ''. Tracking: '' @ interpolate (b_trackingNumber body) else [])),
      te_timestamp = dateNow env\<rparr>"

text \<open>
  The field updates and the history entry that follow the checks: \<^verbatim>\<open>status\<close>,
  \<^verbatim>\<open>trackingNumber\<close> and \<^verbatim>\<open>adminNotes\<close> are assigned when they are truthy,
  \<^verbatim>\<open>statusUpdatedAt\<close> always, and one entry is pushed onto the history. The entry
  is built after \<^verbatim>\<open>order.status\<close> was assigned.
\<close>

definition updateFields :: "env \<Rightarrow> order \<Rightarrow> status_body \<Rightarrow> order" where
  "updateFields env order body =
     (let o1 = (if truthy (b_status body)
                then order\<lparr>o_status := interpolate (b_status body)\<rparr> else order);
          o2 = (if truthy (b_trackingNumber body)
                then o1\<lparr>o_trackingNumber := b_trackingNumber body\<rparr> else o1);
          o3 = (if truthy (b_adminNotes body)
                then o2\<lparr>o_adminNotes := b_adminNotes body\<rparr> else o2);
          o4 = o3\<lparr>o_statusUpdatedAt := Some (dateNow env)\<rparr>
      in o4\<lparr>o_trackingHistory := o_trackingHistory o4 @ [historyEntry env o4 body]\<rparr>)"

text \<open>
  The checks on the loaded order, up to \<^verbatim>\<open>order.save()\<close>: the transition check,
  applied when a status is given and differs from the current one, and the
  tracking-number rule for \<^verbatim>\<open>shipped\<close>.
\<close>

definition applyStatusUpdate :: "env \<Rightarrow> order \<Rightarrow> status_body \<Rightarrow> failure + order" where
  "applyStatusUpdate env order body =
     (case (if truthy (b_status body) \<and> Some (o_status order) \<noteq> b_status body
            then transitionCheck (o_status order) (interpolate (b_status body))
            else None) of
        Some e \<Rightarrow> Inl e
      | None \<Rightarrow>
          if b_status body = Some ''shipped'' \<and> \<not> truthy (b_trackingNumber body) \<and>
             \<not> truthy (o_trackingNumber order)
          then Inl TrackingRequired
          else Inr (updateFields env order body))"

text \<open>
  \<^verbatim>\<open>Order.findById(req.params.id)\<close>, the update, and \<^verbatim>\<open>order.save()\<close>, which
  replaces the stored document. Errors thrown by the handler reach the error middleware:
  a CastError is answered with 500, a schema ValidationError with 400.
\<close>

definition replaceOrder :: "order \<Rightarrow> order list \<Rightarrow> order list" where
  "replaceOrder order' os = map (\<lambda>x. if o_id x = o_id order' then order' else x) os"

definition updateOrderStatus :: "env \<Rightarrow> database \<Rightarrow> string \<Rightarrow> status_body \<Rightarrow> database \<times> reply" where
  "updateOrderStatus env db oid body =
     (if \<not> isObjectId env oid then (db, Failure ServerError)
      else
        (case find (\<lambda>x. o_id x = oid) (orders db) of
           None \<Rightarrow> (db, Failure OrderNotFound)
         | Some order \<Rightarrow>
             (case applyStatusUpdate env order body of
                Inl e \<Rightarrow> (db, Failure e)
              | Inr order' \<Rightarrow>
                  if orderErrors env order' \<noteq> []
                  then (db, Failure (ValidationFailed (orderErrors env order')))
                  else (db\<lparr>orders := replaceOrder order' (orders db)\<rparr>, Updated order'))))"

section \<open>Observations and a concrete environment\<close>

definition replyOrder :: "reply \<Rightarrow> order option" where
  "replyOrder r = (case r of Created order alerts \<Rightarrow> Some order | Updated order \<Rightarrow> Some order
                   | Failure e \<Rightarrow> None)"

definition replyStatus :: "reply \<Rightarrow> nat" where
  "replyStatus r = (case r of Created order alerts \<Rightarrow> 201 | Updated order \<Rightarrow> 200
                    | Failure e \<Rightarrow> statusCode e)"

text \<open>
  Modelled from the spec: \<^verbatim>\<open>sanitizeAmount\<close> of \<^verbatim>\<open>utils/inputSanitizer.js\<close> is not
  among the sources. The spec gives stored amounts a rounding tolerance of 0.01, so the
  amount is rounded to the nearest cent.
\<close>

definition sanitizeAmountSpec :: "amount \<Rightarrow> amount" where
  "sanitizeAmountSpec x = of_int (round (x * 100)) / 100"

definition isHexChar :: "char \<Rightarrow> bool" where
  "isHexChar c = (c \<in> set ''0123456789abcdefABCDEF'')"

text \<open>
  Modelled from the spec: the other collaborators missing from the sources, fixed for the
  examples below. The address sanitizers, which the spec describes as stripping markup and
  normalising email and phone, leave the already clean example address as it is; the
  Order schema raises no validation error; a string casts to an ObjectId when it is 24
  hexadecimal digits; clock, uuid and new id are constants.
\<close>

definition exampleEnv :: env where
  "exampleEnv =
     \<lparr>sanitizeAmount = sanitizeAmountSpec,
      sanitizeObject = (\<lambda>a. a),
      sanitizeEmail = (\<lambda>e. e),
      sanitizePhone = (\<lambda>p. p),
      orderErrors = (\<lambda>order. []),
      isObjectId = (\<lambda>s. length s = 24 \<and> list_all isHexChar s),
      uuidv4 = ''9b1deb4d-3b7d-4bad-9bdd-2b0d7b3dcb6d'',
      dateNow = 1700000000000,
      newObjectId = ''65a000000000000000000001''\<rparr>"

definition houseBlend :: "int \<Rightarrow> product" where
  "houseBlend stock =
     \<lparr>p_id = ''64b000000000000000000001'', p_name = ''House Blend'',
      p_sizes = [\<lparr>se_size = ''250g'', se_price = 500\<rparr>, \<lparr>se_size = ''500g'', se_price = 900\<rparr>],
      p_price = None, p_images = [''/img/house.jpg''],
      p_stock = stock, p_lowStockAlert = 5, p_inStock = (stock > 0)\<rparr>"

definition singleOrigin :: product where
  "singleOrigin =
     \<lparr>p_id = ''64b000000000000000000002'', p_name = ''Single Origin'',
      p_sizes = [\<lparr>se_size = ''250g'', se_price = 500\<rparr>],
      p_price = None, p_images = [],
      p_stock = 20, p_lowStockAlert = 5, p_inStock = True\<rparr>"

definition exampleDb :: "int \<Rightarrow> database" where
  "exampleDb stock =
     \<lparr>products = [''64b000000000000000000001'' \<mapsto> houseBlend stock,
                  ''64b000000000000000000002'' \<mapsto> singleOrigin],
      orders = []\<rparr>"

definition exampleAddress :: address where
  "exampleAddress =
     \<lparr>a_firstName = Some ''Jane'', a_lastName = Some ''Doe'',
      a_email = Some ''jane@example.com'', a_phone = Some ''+254700000001'',
      a_address = Some ''1 Moi Avenue'', a_city = Some ''Nairobi'',
      a_county = Some ''Nairobi'', a_country = None, a_postalCode = None\<rparr>"

definition customer :: user where
  "customer = \<lparr>u_id = ''63c000000000000000000001'', u_email = ''jane@example.com'',
               u_userType = ''customer'', u_role = ''customer''\<rparr>"

definition line :: "string \<Rightarrow> string \<Rightarrow> amount \<Rightarrow> int \<Rightarrow> item" where
  "line pid sz pr q =
     \<lparr>i_product = Some pid, i_name = Some ''Coffee'', i_price = Some pr,
      i_quantity = Some q, i_size = Some sz, i_image = None\<rparr>"

definition exampleRequest :: "string \<Rightarrow> item list \<Rightarrow> amount \<Rightarrow> amount \<Rightarrow> request" where
  "exampleRequest method its shipping totalAmount =
     \<lparr>r_user = customer, r_shippingAddress = Some exampleAddress,
      r_paymentMethod = Some method, r_items = Some its,
      r_subtotal = 0, r_shippingCost = shipping, r_tax = 0, r_totalAmount = totalAmount,
      r_notes = None\<rparr>"

text \<open>
  The checks a request passes before the item loop starts: the requester is no
  administrator, the shipping address is present, the cart \<open>its\<close> is not empty, the
  payment method \<open>pm\<close> is given, and the sanitized email and phone are not empty.
\<close>

definition reachesItemLoop :: "env \<Rightarrow> request \<Rightarrow> address \<Rightarrow> item list \<Rightarrow> string \<Rightarrow> bool" where
  "reachesItemLoop env req sa its pm =
     (\<not> isAdmin (r_user req) \<and> r_shippingAddress req = Some sa \<and>
      r_items req = Some its \<and> its \<noteq> [] \<and>
      r_paymentMethod req = Some pm \<and> pm \<noteq> [] \<and>
      truthy (a_email (sanitizedAddress env sa)) \<and>
      truthy (a_phone (sanitizedAddress env sa)))"

definition storedPrices :: "reply \<Rightarrow> amount list option" where
  "storedPrices r = map_option (map oi_price \<circ> o_items) (replyOrder r)"

text \<open>
  The order and the database that result from placing two 250g House Blend, cash on
  delivery, shipping 300, with five in stock.
\<close>

definition codRequest :: request where
  "codRequest =
     exampleRequest ''cod'' [line ''64b000000000000000000001'' ''250g'' 500 2] 300 1460"

definition codOrder :: order where
  "codOrder =
     \<lparr>o_id = ''65a000000000000000000001'',
      o_orderNumber = ''ORD-00000000-9B1DEB4D'',
      o_user = ''63c000000000000000000001'',
      o_items =
        [\<lparr>oi_product = ''64b000000000000000000001'', oi_name = ''Coffee'', oi_price = 500,
          oi_quantity = 2, oi_size = ''250g'', oi_image = ''/img/house.jpg'',
          oi_itemTotal = 1000\<rparr>],
      o_shippingAddress =
        exampleAddress\<lparr>a_country := Some ''Kenya'', a_postalCode := Some []\<rparr>,
      o_subtotal = 1000, o_shippingCost = 300, o_tax = 160, o_total = 1460,
      o_paymentMethod = ''cod'', o_paymentStatus = ''pending'', o_status = ''confirmed'',
      o_notes = [],
      o_trackingHistory =
        [\<lparr>te_status = ''confirmed'', te_location = None,
          te_message = ''Order received and confirmed'', te_timestamp = 1700000000000\<rparr>],
      o_trackingNumber = None, o_adminNotes = None, o_statusUpdatedAt = None\<rparr>"

definition codDb :: database where
  "codDb =
     \<lparr>products = (products (exampleDb 5))(''64b000000000000000000001'' \<mapsto> houseBlend 3),
      orders = [codOrder]\<rparr>"

text \<open>
  A cart line for the 500g Single Origin, a size the product does not list, at a client
  price of 1 instead of the product's 500; the submitted total 2.32 is consistent with
  that price (subtotal 2, tax 0.32).
\<close>

definition unlistedSizeRequest :: request where
  "unlistedSizeRequest =
     exampleRequest ''mpesa'' [line ''64b000000000000000000002'' ''500g'' 1 2] 0 (58 / 25)"


text \<open>
  A cart with two lines for the same product, three 250g and three 500g House Blend
  (subtotal 1500 + 2700, tax 672).
\<close>

definition twoSizesRequest :: request where
  "twoSizesRequest =
     exampleRequest ''mpesa''
       [line ''64b000000000000000000001'' ''250g'' 500 3,
        line ''64b000000000000000000001'' ''500g'' 900 3] 0 4872"

definition stockAfter :: "database \<times> reply \<Rightarrow> string \<Rightarrow> (int \<times> bool) option" where
  "stockAfter result pid =
     map_option (\<lambda>p. (p_stock p, p_inStock p)) (products (fst result) pid)"

text \<open>A status request that gives a target status and, optionally, a tracking number.\<close>

definition statusBody :: "string \<Rightarrow> string option \<Rightarrow> status_body" where
  "statusBody target tracking =
     \<lparr>b_status = Some target, b_trackingNumber = tracking, b_adminNotes = None,
      b_location = None, b_message = None\<rparr>"

text \<open>The database of the example after that order has been cancelled.\<close>

definition cancelledDb :: database where
  "cancelledDb = \<lparr>products = products codDb, orders = [codOrder\<lparr>o_status := ''cancelled''\<rparr>]\<rparr>"

text \<open>
  The database of the example with the status of the order set to \<^verbatim>\<open>constructor\<close>,
  as \<^verbatim>\<open>PUT /api/admin/orders/:id/status\<close> of the admin controller stores it: that
  handler writes the submitted status with \<^verbatim>\<open>findByIdAndUpdate\<close>, which runs no
  validator.
\<close>

definition constructorDb :: database where
  "constructorDb =
     \<lparr>products = products codDb, orders = [codOrder\<lparr>o_status := ''constructor''\<rparr>]\<rparr>"



text \<open>
  The transition table as the specification words it, to be compared with the lookup in
  \<open>validTransitions\<close>: pending to confirmed, processing or cancelled; confirmed to
  processing, shipped or cancelled; processing to shipped or cancelled; shipped to
  delivered or returned; delivered to returned; nothing out of cancelled or returned.
\<close>

definition permittedTransition :: "string \<Rightarrow> string \<Rightarrow> bool" where
  "permittedTransition current target =
     ((current = ''pending'' \<and> target \<in> set [''confirmed'', ''processing'', ''cancelled'']) \<or>
      (current = ''confirmed'' \<and> target \<in> set [''processing'', ''shipped'', ''cancelled'']) \<or>
      (current = ''processing'' \<and> target \<in> set [''shipped'', ''cancelled'']) \<or>
      (current = ''shipped'' \<and> target \<in> set [''delivered'', ''returned'']) \<or>
      (current = ''delivered'' \<and> target = ''returned''))"

section \<open>Properties of order placement\<close>

lemmas truthy_defs = truthy_def truthyNum_def truthyInt_def

lemmas amount_defs =
  calculatedTotal_def finalSubtotal_def finalShippingCost_def finalTax_def sanitizeAmountSpec_def

lemmas item_defs =
  processItem_def line_def validItem_def processFields_def findById_def isHexChar_def
  resolvePrice_def orNum_def resolveImage_def

lemma exampleEnv_simps:
  "sanitizeAmount exampleEnv = sanitizeAmountSpec"
  "sanitizeObject exampleEnv a = a"
  "sanitizeEmail exampleEnv e = e"
  "sanitizePhone exampleEnv ph = ph"
  "orderErrors exampleEnv order = []"
  "isObjectId exampleEnv s = (length s = 24 \<and> list_all isHexChar s)"
  "uuidv4 exampleEnv = ''9b1deb4d-3b7d-4bad-9bdd-2b0d7b3dcb6d''"
  "dateNow exampleEnv = 1700000000000"
  "newObjectId exampleEnv = ''65a000000000000000000001''"
  by (simp_all add: exampleEnv_def)

lemma orderNumber_example: "orderNumber exampleEnv = ''ORD-00000000-9B1DEB4D''"
  by (simp add: orderNumber_def exampleEnv_simps sliceLast_def digitChar_def toUpperChar_def)

lemmas example_defs =
  exampleEnv_simps exampleDb_def houseBlend_def singleOrigin_def exampleAddress_def customer_def
  exampleRequest_def


lemma processItems_append:
  "processItems env ps (xs @ ys) acc =
     (case processItems env ps xs acc of Inl e \<Rightarrow> Inl e | Inr acc' \<Rightarrow> processItems env ps ys acc')"
proof (induction xs arbitrary: acc)
  case Nil
  show ?case by simp
next
  case (Cons x xs)
  obtain s ois sus where acc: "acc = (s, ois, sus)" by (cases acc) auto
  show ?case
    unfolding acc by (simp add: Cons.IH split: sum.splits prod.splits)
qed

lemma processItems_Inr:
  "processItems env ps its (s, ois, sus) = Inr (s', ois', sus') \<Longrightarrow>
   \<exists>rs. list_all2 (\<lambda>it r. processItem env ps it = Inr r) its rs \<and>
        s' = s + sum_list (map (\<lambda>r. oi_itemTotal (fst r)) rs) \<and>
        ois' = ois @ map fst rs \<and> sus' = sus @ map snd rs"
proof (induction its arbitrary: s ois sus)
  case Nil
  then show ?case by simp
next
  case (Cons it its)
  from Cons.prems obtain oi su where step: "processItem env ps it = Inr (oi, su)"
    and rest: "processItems env ps its (s + oi_itemTotal oi, ois @ [oi], sus @ [su]) = Inr (s', ois', sus')"
    by (auto split: sum.splits)
  from Cons.IH [OF rest] obtain rs where
    rs: "list_all2 (\<lambda>it r. processItem env ps it = Inr r) its rs"
      "s' = s + oi_itemTotal oi + sum_list (map (\<lambda>r. oi_itemTotal (fst r)) rs)"
      "ois' = (ois @ [oi]) @ map fst rs" "sus' = (sus @ [su]) @ map snd rs"
    by blast
  show ?case
    by (rule exI [of _ "(oi, su) # rs"]) (use step rs in simp)
qed

text \<open>Every failing path of the handler leaves the database as it was.\<close>

lemma placeOrder_failure_db:
  "placeOrder env db req addr pm acc = (db', Failure e) \<Longrightarrow> db' = db"
  by (auto simp: placeOrder_def Let_def split: prod.splits if_splits)

lemma createOrder_failure_db:
  "createOrder env db req = (db', Failure e) \<Longrightarrow> db' = db"
  by (auto simp: createOrder_def split: if_splits option.splits list.splits sum.splits
      dest: placeOrder_failure_db)

lemma createOrder_reaches_placeOrder:
  assumes "reachesItemLoop env req sa its pm"
  shows "createOrder env db req =
           (case processItems env (products db) its (0, [], []) of
              Inl e \<Rightarrow> (db, Failure e)
            | Inr acc \<Rightarrow> placeOrder env db req (sanitizedAddress env sa) pm acc)"
  using assms by (cases its) (simp_all add: createOrder_def reachesItemLoop_def)

text \<open>What a successful placement tells about the run that produced it.\<close>

lemma createOrder_Created:
  assumes "createOrder env db req = (db', Created order alerts)"
  obtains sa its pm s ois sus where
    "reachesItemLoop env req sa its pm"
    "processItems env (products db) its (0, [], []) = Inr (s, ois, sus)"
    "\<bar>calculatedTotal env s (r_shippingCost req) - sanitizeAmount env (r_totalAmount req)\<bar> \<le> 1"
    "order = newOrder env req (sanitizedAddress env sa) pm s ois"
    "orderErrors env order = []"
    "applyStockUpdates (products db) sus [] = (products db', alerts)"
    "orders db' = orders db @ [order]"
proof -
  from assms have na: "\<not> isAdmin (r_user req)"
    by (auto simp: createOrder_def split: if_splits)
  from assms na obtain sa where sa: "r_shippingAddress req = Some sa"
    by (cases "r_shippingAddress req") (auto simp: createOrder_def)
  from assms na sa obtain it its' where its: "r_items req = Some (it # its')"
    by (auto simp: createOrder_def split: option.splits list.splits)
  from assms na sa its obtain pm where pm: "r_paymentMethod req = Some pm" "pm \<noteq> []"
    by (auto simp: createOrder_def split: option.splits if_splits)
  from assms na sa its pm have
    ep: "truthy (a_email (sanitizedAddress env sa))" "truthy (a_phone (sanitizedAddress env sa))"
    by (auto simp: createOrder_def split: if_splits)
  from assms na sa its pm obtain acc where
    acc: "processItems env (products db) (it # its') (0, [], []) = Inr acc"
    and po: "placeOrder env db req (sanitizedAddress env sa) pm acc = (db', Created order alerts)"
    by (auto simp: createOrder_def split: if_splits sum.splits)
  obtain s ois sus where acc_eq: "acc = (s, ois, sus)" by (cases acc) auto
  have reach: "reachesItemLoop env req sa (it # its') pm"
    using na sa its pm ep by (simp add: reachesItemLoop_def)
  have loop: "processItems env (products db) (it # its') (0, [], []) = Inr (s, ois, sus)"
    using acc acc_eq by simp
  from po have tot:
    "\<bar>calculatedTotal env s (r_shippingCost req) - sanitizeAmount env (r_totalAmount req)\<bar> \<le> 1"
    unfolding acc_eq by (auto simp: placeOrder_def Let_def split: if_splits prod.splits)
  from po have ord: "order = newOrder env req (sanitizedAddress env sa) pm s ois"
    unfolding acc_eq by (auto simp: placeOrder_def Let_def split: if_splits prod.splits)
  from po have val: "orderErrors env order = []"
    unfolding acc_eq by (auto simp: placeOrder_def Let_def split: if_splits prod.splits)
  from po have upd: "applyStockUpdates (products db) sus [] = (products db', alerts)"
    unfolding acc_eq by (auto simp: placeOrder_def Let_def split: if_splits prod.splits)
  from po have app: "orders db' = orders db @ [order]"
    unfolding acc_eq by (auto simp: placeOrder_def Let_def split: if_splits prod.splits)
  show thesis
    by (rule that [OF reach loop tot ord val upd app])
qed

subsection \<open>The amount check\<close>

text \<open>
  C1. When a request has passed the checks before the item loop and the loop has resolved
  every line, so that the server has a recomputed total (the sanitized sum of resolved
  subtotal, client-supplied shipping cost and 16% tax), and that total differs from the
  sanitized client-submitted \<^verbatim>\<open>totalAmount\<close> by more than 1.0, then
  \<^verbatim>\<open>createOrder\<close> aborts and answers 400 ("amount validation failed"); the database
  it leaves is the one it was given, so no order is persisted and no stock is changed.
\<close>

theorem createOrder_amount_mismatch:
  assumes "reachesItemLoop env req sa its pm"
    and "processItems env (products db) its (0, [], []) =
           Inr (calculatedSubtotal, orderItems, stockUpdates)"
    and "\<bar>calculatedTotal env calculatedSubtotal (r_shippingCost req) -
          sanitizeAmount env (r_totalAmount req)\<bar> > 1"
  shows "createOrder env db req = (db, Failure AmountValidationFailed) \<and>
         statusCode AmountValidationFailed = 400"
  using assms(2,3) createOrder_reaches_placeOrder [OF assms(1), of db]
  by (simp add: placeOrder_def)

text \<open>
  Two units of the 250g House Blend (500 each) with shipping 300 total 1460 on the
  server; the client submits 1000.
\<close>

theorem createOrder_amount_mismatch_witness:
  "reachesItemLoop exampleEnv
     (exampleRequest ''mpesa'' [line ''64b000000000000000000001'' ''250g'' 500 2] 300 1000)
     exampleAddress [line ''64b000000000000000000001'' ''250g'' 500 2] ''mpesa'' \<and>
   calculatedTotal exampleEnv 1000 300 = 1460 \<and>
   createOrder exampleEnv (exampleDb 5)
     (exampleRequest ''mpesa'' [line ''64b000000000000000000001'' ''250g'' 500 2] 300 1000) =
   (exampleDb 5, Failure AmountValidationFailed)"
proof -
  let ?its = "[line ''64b000000000000000000001'' ''250g'' 500 2]"
  let ?req = "exampleRequest ''mpesa'' ?its 300 1000"
  have reach: "reachesItemLoop exampleEnv ?req exampleAddress ?its ''mpesa''"
    by (simp add: reachesItemLoop_def isAdmin_def sanitizedAddress_def truthy_defs example_defs)
  have loop: "processItems exampleEnv (products (exampleDb 5)) ?its (0, [], []) =
      Inr (1000,
           [\<lparr>oi_product = ''64b000000000000000000001'', oi_name = ''Coffee'', oi_price = 500,
             oi_quantity = 2, oi_size = ''250g'', oi_image = ''/img/house.jpg'',
             oi_itemTotal = 1000\<rparr>],
           [\<lparr>su_productId = ''64b000000000000000000001'', su_quantity = 2,
             su_currentStock = 5\<rparr>])"
    by (simp add: item_defs truthy_defs example_defs)
  have total: "calculatedTotal exampleEnv 1000 300 = 1460"
    by (simp add: amount_defs example_defs)
  have diff: "\<bar>calculatedTotal exampleEnv 1000 (r_shippingCost ?req) -
               sanitizeAmount exampleEnv (r_totalAmount ?req)\<bar> > 1"
    by (simp add: amount_defs example_defs)
  have res: "createOrder exampleEnv (exampleDb 5) ?req =
               (exampleDb 5, Failure AmountValidationFailed)"
    by (rule conjunct1 [OF createOrder_amount_mismatch [OF reach loop diff]])
  show ?thesis
    by (rule conjI [OF reach conjI [OF total res]])
qed

subsection \<open>Insufficient stock\<close>

lemma processItem_invalid:
  "\<not> validItem it \<Longrightarrow> processItem env ps it = Inl InvalidItemData"
  by (simp add: processItem_def split: option.splits)

lemma processItem_valid:
  assumes "validItem it"
  obtains pid nm pr q sz where
    "i_product it = Some pid" "i_name it = Some nm" "i_price it = Some pr"
    "i_quantity it = Some q" "i_size it = Some sz"
    "processItem env ps it = processFields env ps pid nm pr q sz (i_image it)"
  using assms
  by (auto simp: validItem_def truthy_defs processItem_def split: option.splits)

lemma processItem_insufficient:
  assumes "i_product it = Some pid" and "i_quantity it = Some q"
    and "ps pid = Some p" and "p_stock p < q"
  shows "\<exists>e. processItem env ps it = Inl e"
proof (cases "validItem it")
  case False
  then show ?thesis by (simp add: processItem_invalid)
next
  case True
  then obtain pid' nm pr q' sz where f: "i_product it = Some pid'" "i_quantity it = Some q'"
    "processItem env ps it = processFields env ps pid' nm pr q' sz (i_image it)"
    by (rule processItem_valid)
  with assms show ?thesis
    by (simp add: processFields_def findById_def)
qed

lemma processItem_insufficient_reached:
  assumes "validItem it" and "i_product it = Some pid" and "i_quantity it = Some q"
    and "isObjectId env pid" and "ps pid = Some p" and "p_stock p < q"
  shows "processItem env ps it = Inl (InsufficientStock (p_name p) (p_stock p) q)"
proof -
  from assms(1) obtain pid' nm pr q' sz where f: "i_product it = Some pid'" "i_quantity it = Some q'"
    "processItem env ps it = processFields env ps pid' nm pr q' sz (i_image it)"
    by (rule processItem_valid)
  with assms show ?thesis
    by (simp add: processFields_def findById_def)
qed

lemma processItems_stops:
  assumes "processItem env ps it = Inl e"
  shows "\<exists>e'. processItems env ps (pre @ it # post) acc = Inl e'"
proof (cases "processItems env ps pre acc")
  case (Inl a)
  then show ?thesis by (simp add: processItems_append)
next
  case (Inr acc')
  obtain s ois sus where "acc' = (s, ois, sus)" by (cases acc') auto
  with Inr assms show ?thesis by (simp add: processItems_append)
qed

lemma processItems_stops_at:
  assumes "processItems env ps pre acc = Inr acc'" and "processItem env ps it = Inl e"
  shows "processItems env ps (pre @ it # post) acc = Inl e"
proof -
  obtain s ois sus where "acc' = (s, ois, sus)" by (cases acc') auto
  with assms show ?thesis by (simp add: processItems_append)
qed

lemma createOrder_loop_failure:
  assumes "r_items req = Some its" and "processItems env (products db) its (0, [], []) = Inl e"
  shows "\<exists>e'. createOrder env db req = (db, Failure e')"
  using assms
  by (cases its) (auto simp: createOrder_def split: option.splits)

text \<open>
  C3. When some line of the cart asks for more than the stock of its product, the
  placement fails and the database is left as it was: no product of the cart, checked
  earlier in the loop or not, has its stock decremented. When the request has passed the
  checks before the loop, the lines before that one have passed theirs and the line
  itself is well formed, the failure is the 400 answer that names the product, its
  available stock and the requested quantity.
\<close>

theorem createOrder_insufficient_stock:
  assumes "r_items req = Some (pre @ it # post)"
    and "i_product it = Some pid" and "i_quantity it = Some q"
    and "products db pid = Some p" and "p_stock p < q"
  shows "(\<exists>e. createOrder env db req = (db, Failure e)) \<and>
         (reachesItemLoop env req sa (pre @ it # post) pm \<and> validItem it \<and> isObjectId env pid \<and>
          (\<exists>acc. processItems env (products db) pre (0, [], []) = Inr acc) \<longrightarrow>
          createOrder env db req = (db, Failure (InsufficientStock (p_name p) (p_stock p) q)) \<and>
          statusCode (InsufficientStock (p_name p) (p_stock p) q) = 400)"
proof (intro conjI impI)
  from processItem_insufficient [where ps = "products db" and env = env, OF assms(2-5)]
  obtain e where "processItem env (products db) it = Inl e" by blast
  from processItems_stops [OF this]
  obtain e' where "processItems env (products db) (pre @ it # post) (0, [], []) = Inl e'"
    by blast
  from createOrder_loop_failure [OF assms(1) this]
  show "\<exists>e. createOrder env db req = (db, Failure e)" .
next
  assume h: "reachesItemLoop env req sa (pre @ it # post) pm \<and> validItem it \<and> isObjectId env pid \<and>
          (\<exists>acc. processItems env (products db) pre (0, [], []) = Inr acc)"
  then obtain acc where acc: "processItems env (products db) pre (0, [], []) = Inr acc" by blast
  from h have "validItem it" and "isObjectId env pid" by simp_all
  from processItem_insufficient_reached [where ps = "products db", OF this(1) assms(2,3) this(2) assms(4,5)]
  have "processItem env (products db) it = Inl (InsufficientStock (p_name p) (p_stock p) q)" .
  from processItems_stops_at [OF acc this]
  have "processItems env (products db) (pre @ it # post) (0, [], []) =
          Inl (InsufficientStock (p_name p) (p_stock p) q)" .
  moreover from h have "reachesItemLoop env req sa (pre @ it # post) pm" by simp
  ultimately show "createOrder env db req = (db, Failure (InsufficientStock (p_name p) (p_stock p) q))"
    by (simp add: createOrder_reaches_placeOrder [of env req sa "pre @ it # post" pm db])
next
  show "statusCode (InsufficientStock (p_name p) (p_stock p) q) = 400" by simp
qed


text \<open>
  A cart whose first line (Single Origin) passes and whose second line asks for nine
  House Blend with five in stock.
\<close>

theorem createOrder_insufficient_stock_witness:
  "reachesItemLoop exampleEnv
     (exampleRequest ''mpesa''
        [line ''64b000000000000000000002'' ''250g'' 500 1,
         line ''64b000000000000000000001'' ''250g'' 500 9] 0 5800)
     exampleAddress
     [line ''64b000000000000000000002'' ''250g'' 500 1,
      line ''64b000000000000000000001'' ''250g'' 500 9] ''mpesa'' \<and>
   products (exampleDb 5) ''64b000000000000000000001'' = Some (houseBlend 5) \<and>
   p_stock (houseBlend 5) < 9 \<and>
   createOrder exampleEnv (exampleDb 5)
     (exampleRequest ''mpesa''
        [line ''64b000000000000000000002'' ''250g'' 500 1,
         line ''64b000000000000000000001'' ''250g'' 500 9] 0 5800) =
   (exampleDb 5, Failure (InsufficientStock ''House Blend'' 5 9))"
proof -
  let ?pre = "[line ''64b000000000000000000002'' ''250g'' 500 1]"
  let ?it = "line ''64b000000000000000000001'' ''250g'' 500 9"
  let ?req = "exampleRequest ''mpesa'' (?pre @ ?it # []) 0 5800"
  have items: "r_items ?req = Some (?pre @ ?it # [])"
    by (simp add: example_defs)
  have pid: "i_product ?it = Some ''64b000000000000000000001''"
    and q: "i_quantity ?it = Some 9" and valid: "validItem ?it"
    by (simp_all add: line_def validItem_def truthy_defs)
  have found: "products (exampleDb 5) ''64b000000000000000000001'' = Some (houseBlend 5)"
    by (simp add: example_defs)
  have less: "p_stock (houseBlend 5) < 9"
    by (simp add: example_defs)
  have reach: "reachesItemLoop exampleEnv ?req exampleAddress (?pre @ ?it # []) ''mpesa''"
    by (simp add: reachesItemLoop_def isAdmin_def sanitizedAddress_def truthy_defs example_defs)
  have oid: "isObjectId exampleEnv ''64b000000000000000000001''"
    by (simp add: example_defs isHexChar_def)
  have pre: "\<exists>acc. processItems exampleEnv (products (exampleDb 5)) ?pre (0, [], []) = Inr acc"
    by (simp add: item_defs truthy_defs example_defs)
  have "createOrder exampleEnv (exampleDb 5) ?req =
          (exampleDb 5,
           Failure (InsufficientStock (p_name (houseBlend 5)) (p_stock (houseBlend 5)) 9))"
    using createOrder_insufficient_stock
            [where env = exampleEnv and db = "exampleDb 5" and sa = exampleAddress and pm = "''mpesa''",
             OF items pid q found less]
      reach valid oid pre
    by blast
  then have res: "createOrder exampleEnv (exampleDb 5) ?req =
          (exampleDb 5, Failure (InsufficientStock ''House Blend'' 5 9))"
    by (simp add: houseBlend_def)
  from reach found less res show ?thesis by simp
qed

subsection \<open>The persisted order\<close>

lemma createOrder_codRequest:
  "createOrder exampleEnv (exampleDb 5) codRequest = (codDb, Created codOrder [houseBlend 3])"
proof -
  have loop: "processItems exampleEnv (products (exampleDb 5))
                [line ''64b000000000000000000001'' ''250g'' 500 2] (0, [], []) =
      Inr (1000,
           [\<lparr>oi_product = ''64b000000000000000000001'', oi_name = ''Coffee'', oi_price = 500,
             oi_quantity = 2, oi_size = ''250g'', oi_image = ''/img/house.jpg'',
             oi_itemTotal = 1000\<rparr>],
           [\<lparr>su_productId = ''64b000000000000000000001'', su_quantity = 2,
             su_currentStock = 5\<rparr>])"
    by (simp add: item_defs truthy_defs example_defs)
  have reach: "reachesItemLoop exampleEnv codRequest exampleAddress
                 [line ''64b000000000000000000001'' ''250g'' 500 2] ''cod''"
    by (simp add: codRequest_def reachesItemLoop_def isAdmin_def sanitizedAddress_def
        truthy_defs example_defs)
  have order: "newOrder exampleEnv codRequest (sanitizedAddress exampleEnv exampleAddress) ''cod'' 1000
       [\<lparr>oi_product = ''64b000000000000000000001'', oi_name = ''Coffee'', oi_price = 500,
             oi_quantity = 2, oi_size = ''250g'', oi_image = ''/img/house.jpg'',
             oi_itemTotal = 1000\<rparr>] = codOrder"
    by (simp add: newOrder_def orderNumber_example codOrder_def codRequest_def amount_defs
        sanitizedAddress_def orString_def example_defs)
  have upd: "applyStockUpdates (products (exampleDb 5))
       [\<lparr>su_productId = ''64b000000000000000000001'', su_quantity = 2, su_currentStock = 5\<rparr>] [] =
       (products codDb, [houseBlend 3])"
    by (simp add: findByIdAndUpdate_def Let_def codDb_def example_defs)
  have tot: "\<not> \<bar>calculatedTotal exampleEnv 1000 (r_shippingCost codRequest) -
               sanitizeAmount exampleEnv (r_totalAmount codRequest)\<bar> > 1"
    by (simp add: amount_defs codRequest_def example_defs)
  have val: "orderErrors exampleEnv codOrder = []"
    by (simp add: exampleEnv_simps)
  have po: "placeOrder exampleEnv (exampleDb 5) codRequest
              (sanitizedAddress exampleEnv exampleAddress) ''cod''
              (1000,
               [\<lparr>oi_product = ''64b000000000000000000001'', oi_name = ''Coffee'', oi_price = 500,
                 oi_quantity = 2, oi_size = ''250g'', oi_image = ''/img/house.jpg'',
                 oi_itemTotal = 1000\<rparr>],
               [\<lparr>su_productId = ''64b000000000000000000001'', su_quantity = 2,
                 su_currentStock = 5\<rparr>]) =
            (\<lparr>products = products codDb, orders = orders (exampleDb 5) @ [codOrder]\<rparr>,
             Created codOrder [houseBlend 3])"
    using tot by (simp add: placeOrder_def order upd val del: applyStockUpdates.simps)
  have db: "\<lparr>products = products codDb, orders = orders (exampleDb 5) @ [codOrder]\<rparr> = codDb"
    by (simp add: codDb_def exampleDb_def)
  show ?thesis
    unfolding createOrder_reaches_placeOrder [OF reach] loop by (simp add: po db)
qed

text \<open>
  C7. Every order persisted by \<^verbatim>\<open>createOrder\<close> is stored with status
  \<^verbatim>\<open>confirmed\<close>, with payment status \<^verbatim>\<open>pending\<close> when the payment method is
  \<^verbatim>\<open>cod\<close> and \<^verbatim>\<open>paid\<close> otherwise, and with a tracking history whose first (and
  only) entry has status \<^verbatim>\<open>confirmed\<close> and message "Order received and confirmed".
\<close>

theorem createOrder_initial_state:
  assumes "createOrder env db req = (db', Created order alerts)"
  shows "orders db' = orders db @ [order] \<and>
         o_status order = ''confirmed'' \<and>
         o_paymentStatus order =
           (if r_paymentMethod req = Some ''cod'' then ''pending'' else ''paid'') \<and>
         length (o_trackingHistory order) = 1 \<and>
         te_status (hd (o_trackingHistory order)) = ''confirmed'' \<and>
         te_message (hd (o_trackingHistory order)) = ''Order received and confirmed''"
proof -
  from assms obtain sa its pm s ois sus where
    reach: "reachesItemLoop env req sa its pm"
    and ord: "order = newOrder env req (sanitizedAddress env sa) pm s ois"
    and app: "orders db' = orders db @ [order]"
    by (rule createOrder_Created)
  from reach have pm: "r_paymentMethod req = Some pm"
    by (simp add: reachesItemLoop_def)
  show ?thesis
    using app by (simp add: ord newOrder_def pm)
qed

theorem createOrder_initial_state_witness:
  "createOrder exampleEnv (exampleDb 5) codRequest = (codDb, Created codOrder [houseBlend 3]) \<and>
   orders codDb = orders (exampleDb 5) @ [codOrder] \<and>
   o_status codOrder = ''confirmed'' \<and>
   o_paymentStatus codOrder = ''pending'' \<and>
   r_paymentMethod codRequest = Some ''cod''"
proof -
  have "r_paymentMethod codRequest = Some ''cod''"
    by (simp add: codRequest_def exampleRequest_def)
  with createOrder_initial_state [OF createOrder_codRequest] createOrder_codRequest
  show ?thesis by simp
qed

subsection \<open>Stored amounts\<close>

lemma processItem_Inr:
  assumes "processItem env ps it = Inr (oi, su)"
  obtains pid nm pr q sz p where
    "i_product it = Some pid" "i_name it = Some nm" "i_price it = Some pr"
    "i_quantity it = Some q" "i_size it = Some sz" "validItem it"
    "isObjectId env pid" "ps pid = Some p" "q \<le> p_stock p"
    "oi = \<lparr>oi_product = p_id p, oi_name = nm, oi_price = resolvePrice p sz pr,
           oi_quantity = q, oi_size = sz, oi_image = resolveImage p (i_image it),
           oi_itemTotal = resolvePrice p sz pr * of_int q\<rparr>"
    "su = \<lparr>su_productId = p_id p, su_quantity = q, su_currentStock = p_stock p\<rparr>"
proof -
  from assms have valid: "validItem it"
    by (cases "validItem it") (simp_all add: processItem_invalid)
  then obtain pid nm pr q sz where f: "i_product it = Some pid" "i_name it = Some nm"
    "i_price it = Some pr" "i_quantity it = Some q" "i_size it = Some sz"
    and pf: "processItem env ps it = processFields env ps pid nm pr q sz (i_image it)"
    by (rule processItem_valid)
  from assms pf have r: "processFields env ps pid nm pr q sz (i_image it) = Inr (oi, su)"
    by simp
  then have oid: "isObjectId env pid"
    by (auto simp: processFields_def findById_def split: if_splits)
  from r oid obtain p where p: "ps pid = Some p"
    by (cases "ps pid") (auto simp: processFields_def findById_def)
  from r oid p have stock: "q \<le> p_stock p"
    by (auto simp: processFields_def findById_def split: if_splits)
  from r oid p stock have
    "oi = \<lparr>oi_product = p_id p, oi_name = nm, oi_price = resolvePrice p sz pr,
           oi_quantity = q, oi_size = sz, oi_image = resolveImage p (i_image it),
           oi_itemTotal = resolvePrice p sz pr * of_int q\<rparr>"
    "su = \<lparr>su_productId = p_id p, su_quantity = q, su_currentStock = p_stock p\<rparr>"
    by (auto simp: processFields_def findById_def Let_def)
  with that [OF f valid oid p stock] show thesis by blast
qed

lemma processItem_itemTotal:
  assumes "processItem env ps it = Inr r"
  shows "oi_itemTotal (fst r) = oi_price (fst r) * of_int (oi_quantity (fst r))"
proof -
  obtain oi su where r: "r = (oi, su)" by (cases r) auto
  from assms [unfolded r] show ?thesis
    unfolding r by (rule processItem_Inr) simp
qed

lemma processItems_subtotal:
  assumes "processItems env ps its (0, [], []) = Inr (s, ois, sus)"
  shows "s = (\<Sum>i\<leftarrow>ois. oi_price i * of_int (oi_quantity i))"
proof -
  from processItems_Inr [OF assms] obtain rs where
    all: "list_all2 (\<lambda>it r. processItem env ps it = Inr r) its rs"
    and s: "s = sum_list (map (\<lambda>r. oi_itemTotal (fst r)) rs)"
    and ois: "ois = map fst rs"
    by auto
  have "\<forall>r \<in> set rs. oi_itemTotal (fst r) = oi_price (fst r) * of_int (oi_quantity (fst r))"
  proof
    fix r assume "r \<in> set rs"
    with all obtain it where "processItem env ps it = Inr r"
      by (auto simp: list_all2_conv_all_nth in_set_conv_nth)
    then show "oi_itemTotal (fst r) = oi_price (fst r) * of_int (oi_quantity (fst r))"
      by (rule processItem_itemTotal)
  qed
  then have "map (\<lambda>r. oi_itemTotal (fst r)) rs =
             map (\<lambda>r. oi_price (fst r) * of_int (oi_quantity (fst r))) rs"
    by simp
  with s ois show ?thesis by (simp add: comp_def)
qed

lemma sanitizeAmountSpec_close: "\<bar>sanitizeAmountSpec x - x\<bar> \<le> 1 / 100"
proof -
  have "\<bar>of_int (round (x * 100)) - x * 100\<bar> \<le> 1 / 2"
    by (rule of_int_round_abs_le)
  then have "\<bar>(of_int (round (x * 100)) - x * 100) / 100\<bar> \<le> (1 / 2) / 100"
    by simp
  moreover have "(of_int (round (x * 100)) - x * 100) / 100 = sanitizeAmountSpec x - x"
    by (simp add: sanitizeAmountSpec_def diff_divide_distrib)
  ultimately show ?thesis by simp
qed

text \<open>
  C8. For every order persisted by \<^verbatim>\<open>createOrder\<close>: the stored subtotal is the
  sanitized sum of resolved unit price times quantity over the stored lines, the stored tax
  is the sanitized 16% of the stored subtotal, and the stored total is the sanitized sum of
  stored subtotal, shipping cost and tax. When sanitization moves an amount by at most
  0.01, each of the three therefore agrees with the unsanitized expression within 0.01.
\<close>

theorem createOrder_amounts:
  assumes "createOrder env db req = (db', Created order alerts)"
    and "\<forall>x. \<bar>sanitizeAmount env x - x\<bar> \<le> 1 / 100"
  shows "\<bar>o_subtotal order - (\<Sum>i\<leftarrow>o_items order. oi_price i * of_int (oi_quantity i))\<bar> \<le> 1 / 100 \<and>
         \<bar>o_tax order - o_subtotal order * (16 / 100)\<bar> \<le> 1 / 100 \<and>
         \<bar>o_total order - (o_subtotal order + o_shippingCost order + o_tax order)\<bar> \<le> 1 / 100"
proof -
  from assms(1) obtain sa its pm s ois sus where
    loop: "processItems env (products db) its (0, [], []) = Inr (s, ois, sus)"
    and ord: "order = newOrder env req (sanitizedAddress env sa) pm s ois"
    by (rule createOrder_Created)
  have s: "s = (\<Sum>i\<leftarrow>ois. oi_price i * of_int (oi_quantity i))"
    by (rule processItems_subtotal [OF loop])
  have sub: "o_subtotal order = sanitizeAmount env (\<Sum>i\<leftarrow>o_items order. oi_price i * of_int (oi_quantity i))"
    by (simp add: ord newOrder_def finalSubtotal_def s)
  have tax: "o_tax order = sanitizeAmount env (o_subtotal order * (16 / 100))"
    by (simp add: ord newOrder_def finalTax_def)
  have tot: "o_total order =
      sanitizeAmount env (o_subtotal order + o_shippingCost order + o_tax order)"
    by (simp add: ord newOrder_def calculatedTotal_def)
  have close: "\<bar>sanitizeAmount env x - x\<bar> \<le> 1 / 100" for x
    using assms(2) by (rule spec)
  have c1: "\<bar>o_subtotal order - (\<Sum>i\<leftarrow>o_items order. oi_price i * of_int (oi_quantity i))\<bar> \<le> 1 / 100"
    by (subst sub) (rule close)
  have c2: "\<bar>o_tax order - o_subtotal order * (16 / 100)\<bar> \<le> 1 / 100"
    by (subst tax) (rule close)
  have c3: "\<bar>o_total order - (o_subtotal order + o_shippingCost order + o_tax order)\<bar> \<le> 1 / 100"
    by (subst tot) (rule close)
  show ?thesis
    by (rule conjI [OF c1 conjI [OF c2 c3]])
qed

text \<open>The cash-on-delivery order of the example: subtotal 1000, tax 160, total 1460.\<close>

theorem createOrder_amounts_witness:
  "createOrder exampleEnv (exampleDb 5) codRequest = (codDb, Created codOrder [houseBlend 3]) \<and>
   (\<forall>x. \<bar>sanitizeAmount exampleEnv x - x\<bar> \<le> 1 / 100) \<and>
   \<bar>o_subtotal codOrder - 1000\<bar> \<le> 1 / 100 \<and>
   \<bar>o_tax codOrder - o_subtotal codOrder * (16 / 100)\<bar> \<le> 1 / 100 \<and>
   \<bar>o_total codOrder - (o_subtotal codOrder + o_shippingCost codOrder + o_tax codOrder)\<bar> \<le> 1 / 100"
proof -
  have close: "\<forall>x. \<bar>sanitizeAmount exampleEnv x - x\<bar> \<le> 1 / 100"
    unfolding exampleEnv_simps(1) using sanitizeAmountSpec_close by (rule allI)
  have sum: "(\<Sum>i\<leftarrow>o_items codOrder. oi_price i * of_int (oi_quantity i)) = 1000"
    by (simp add: codOrder_def)
  note res = createOrder_amounts [OF createOrder_codRequest close, unfolded sum]
  show ?thesis
    by (rule conjI [OF createOrder_codRequest conjI [OF close res]])
qed

subsection \<open>Stored unit prices\<close>

lemma reaches_exampleRequest:
  "pm \<noteq> [] \<Longrightarrow> its \<noteq> [] \<Longrightarrow>
   reachesItemLoop exampleEnv (exampleRequest pm its sh tot) exampleAddress its pm"
  by (simp add: reachesItemLoop_def isAdmin_def sanitizedAddress_def truthy_defs example_defs)

lemma placeOrder_reply:
  assumes "\<not> \<bar>calculatedTotal env s (r_shippingCost req) - sanitizeAmount env (r_totalAmount req)\<bar> > 1"
    and "orderErrors env (newOrder env req addr pm s ois) = []"
  shows "placeOrder env db req addr pm (s, ois, sus) =
           (\<lparr>products = fst (applyStockUpdates (products db) sus []),
             orders = orders db @ [newOrder env req addr pm s ois]\<rparr>,
            Created (newOrder env req addr pm s ois) (snd (applyStockUpdates (products db) sus [])))"
  using assms by (simp add: placeOrder_def Let_def split: prod.splits)

text \<open>
  C2 as stated fails: the Single Origin lists only a 250g price of 500 and has no flat
  price; for a 500g line the handler stores the client-submitted price 1.
\<close>

theorem createOrder_client_price_counterexample:
  "storedPrices (snd (createOrder exampleEnv (exampleDb 5) unlistedSizeRequest)) = Some [1] \<and>
   map se_price (p_sizes singleOrigin) = [500] \<and> p_price singleOrigin = None"
proof -
  let ?oi = "\<lparr>oi_product = ''64b000000000000000000002'', oi_name = ''Coffee'', oi_price = 1,
             oi_quantity = 2, oi_size = ''500g'', oi_image = ''/default-product.jpg'',
             oi_itemTotal = 2\<rparr>"
  let ?su = "\<lparr>su_productId = ''64b000000000000000000002'', su_quantity = 2,
             su_currentStock = 20\<rparr>"
  have reach: "reachesItemLoop exampleEnv unlistedSizeRequest exampleAddress
                 [line ''64b000000000000000000002'' ''500g'' 1 2] ''mpesa''"
    unfolding unlistedSizeRequest_def by (rule reaches_exampleRequest) simp_all
  have loop: "processItems exampleEnv (products (exampleDb 5))
                [line ''64b000000000000000000002'' ''500g'' 1 2] (0, [], []) =
              Inr (2, [?oi], [?su])"
    by (simp add: item_defs truthy_defs example_defs)
  have tot: "\<not> \<bar>calculatedTotal exampleEnv 2 (r_shippingCost unlistedSizeRequest) -
               sanitizeAmount exampleEnv (r_totalAmount unlistedSizeRequest)\<bar> > 1"
    by (simp add: amount_defs unlistedSizeRequest_def example_defs)
  have val: "orderErrors exampleEnv order = []" for order
    by (simp add: exampleEnv_simps)
  have "storedPrices (snd (createOrder exampleEnv (exampleDb 5) unlistedSizeRequest)) = Some [1]"
    unfolding createOrder_reaches_placeOrder [OF reach] loop
    by (simp add: placeOrder_reply [OF tot val] storedPrices_def replyOrder_def newOrder_def)
  then show ?thesis
    by (simp add: singleOrigin_def)
qed

text \<open>
  C2, amended. For every line item of a successful placement the stored unit price is the
  price of the first entry of the product's size-price list whose size is the item's
  size, when that price is not zero; otherwise the product's flat price, when it is
  present and not zero; otherwise the client-submitted item price.
\<close>

theorem createOrder_stored_prices:
  assumes "createOrder env db req = (db', Created order alerts)"
  shows "\<exists>its. r_items req = Some its \<and>
           list_all2
             (\<lambda>it oi. \<exists>pid sz pr p.
                i_product it = Some pid \<and> i_size it = Some sz \<and> i_price it = Some pr \<and>
                products db pid = Some p \<and>
                oi_price oi =
                  (case find (\<lambda>s. se_size s = sz) (p_sizes p) of
                     Some s \<Rightarrow>
                       if se_price s \<noteq> 0 then se_price s
                       else (case p_price p of
                               Some flat \<Rightarrow> if flat \<noteq> 0 then flat else pr
                             | None \<Rightarrow> pr)
                   | None \<Rightarrow>
                       (case p_price p of
                          Some flat \<Rightarrow> if flat \<noteq> 0 then flat else pr
                        | None \<Rightarrow> pr)))
             its (o_items order)"
proof -
  from assms obtain sa its pm s ois sus where
    reach: "reachesItemLoop env req sa its pm"
    and loop: "processItems env (products db) its (0, [], []) = Inr (s, ois, sus)"
    and ord: "order = newOrder env req (sanitizedAddress env sa) pm s ois"
    by (rule createOrder_Created)
  from processItems_Inr [OF loop] obtain rs where
    all: "list_all2 (\<lambda>it r. processItem env (products db) it = Inr r) its rs"
    and ois: "ois = map fst rs"
    by auto
  let ?P = "\<lambda>it oi. \<exists>pid sz pr p.
                i_product it = Some pid \<and> i_size it = Some sz \<and> i_price it = Some pr \<and>
                products db pid = Some p \<and>
                oi_price oi =
                  (case find (\<lambda>s. se_size s = sz) (p_sizes p) of
                     Some s \<Rightarrow>
                       if se_price s \<noteq> 0 then se_price s
                       else (case p_price p of
                               Some flat \<Rightarrow> if flat \<noteq> 0 then flat else pr
                             | None \<Rightarrow> pr)
                   | None \<Rightarrow>
                       (case p_price p of
                          Some flat \<Rightarrow> if flat \<noteq> 0 then flat else pr
                        | None \<Rightarrow> pr))"
  have step: "?P it (fst r)" if "processItem env (products db) it = Inr r" for it r
  proof -
    obtain oi su where r: "r = (oi, su)" by (cases r) auto
    from that [unfolded r] obtain pid nm pr q sz p where
      "i_product it = Some pid" "i_size it = Some sz" "i_price it = Some pr"
      "products db pid = Some p"
      "oi = \<lparr>oi_product = p_id p, oi_name = nm, oi_price = resolvePrice p sz pr,
           oi_quantity = q, oi_size = sz, oi_image = resolveImage p (i_image it),
           oi_itemTotal = resolvePrice p sz pr * of_int q\<rparr>"
      by (rule processItem_Inr)
    then show ?thesis
      unfolding r
      by (auto simp: resolvePrice_def orNum_def split: option.splits)
  qed
  have "list_all2 ?P its (map fst rs)"
    unfolding list_all2_map2
    by (rule list_all2_mono [OF all]) (rule step)
  moreover have "o_items order = map fst rs"
    by (simp add: ord newOrder_def ois)
  ultimately have prices: "list_all2 ?P its (o_items order)"
    by (rule back_subst [where P = "list_all2 ?P its", OF _ sym])
  from reach have items: "r_items req = Some its"
    by (simp add: reachesItemLoop_def)
  show ?thesis
    by (rule exI [of _ its]) (rule conjI [OF items prices])
qed

text \<open>
  The cash-on-delivery order of the example; its line is priced from the 250g entry of the
  House Blend.
\<close>

theorem createOrder_stored_prices_witness:
  "createOrder exampleEnv (exampleDb 5) codRequest = (codDb, Created codOrder [houseBlend 3]) \<and>
   map oi_price (o_items codOrder) = [500] \<and>
   (\<exists>its. r_items codRequest = Some its \<and>
      list_all2
        (\<lambda>it oi. \<exists>pid sz pr p.
           i_product it = Some pid \<and> i_size it = Some sz \<and> i_price it = Some pr \<and>
           products (exampleDb 5) pid = Some p \<and>
           oi_price oi =
             (case find (\<lambda>s. se_size s = sz) (p_sizes p) of
                Some s \<Rightarrow>
                  if se_price s \<noteq> 0 then se_price s
                  else (case p_price p of
                          Some flat \<Rightarrow> if flat \<noteq> 0 then flat else pr
                        | None \<Rightarrow> pr)
              | None \<Rightarrow>
                  (case p_price p of
                     Some flat \<Rightarrow> if flat \<noteq> 0 then flat else pr
                   | None \<Rightarrow> pr)))
        its (o_items codOrder))"
proof -
  have prices: "map oi_price (o_items codOrder) = [500]"
    by (simp add: codOrder_def)
  show ?thesis
    by (rule conjI [OF createOrder_codRequest
          conjI [OF prices createOrder_stored_prices [OF createOrder_codRequest]]])
qed

subsection \<open>Structural validation\<close>









subsection \<open>Stock and the inStock flag\<close>

text \<open>
  The methods of the product model keep the stock of a saved document non-negative and its
  flag equal to \<open>stock > 0\<close>: \<^verbatim>\<open>save\<close> validates the stock and its hook recomputes
  the flag.
\<close>

lemma save_invariant:
  "save p = Inr p' \<Longrightarrow> 0 \<le> p_stock p' \<and> p_inStock p' = (0 < p_stock p')"
  by (auto simp: save_def preSave_def productErrors_def split: if_splits)

lemma updateStock_invariant:
  "updateStock p n = Inr p' \<Longrightarrow> 0 \<le> p_stock p' \<and> p_inStock p' = (0 < p_stock p')"
  unfolding updateStock_def by (rule save_invariant)

lemma decreaseStock_invariant:
  "decreaseStock p n = Inr p' \<Longrightarrow> 0 \<le> p_stock p' \<and> p_inStock p' = (0 < p_stock p')"
  unfolding decreaseStock_def by (auto split: if_splits dest: save_invariant)

lemma increaseStock_invariant:
  "increaseStock p n = Inr p' \<Longrightarrow> 0 \<le> p_stock p' \<and> p_inStock p' = (0 < p_stock p')"
  unfolding increaseStock_def by (rule save_invariant)

text \<open>
  C9 does not hold for the decrement of order placement. Each line is checked against the
  stock read in the item loop, and the flag is computed from that stock, while the
  decrements add up: with five House Blend in stock, a cart with a 250g line and a 500g
  line of three each is accepted, and the product is left with stock -1 and
  \<^verbatim>\<open>inStock\<close> true.
\<close>

theorem createOrder_duplicate_product_stock:
  "replyStatus (snd (createOrder exampleEnv (exampleDb 5) twoSizesRequest)) = 201 \<and>
   stockAfter (createOrder exampleEnv (exampleDb 5) twoSizesRequest)
     ''64b000000000000000000001'' = Some (- 1, True)"
proof -
  let ?its = "[line ''64b000000000000000000001'' ''250g'' 500 3,
               line ''64b000000000000000000001'' ''500g'' 900 3]"
  let ?ois = "[\<lparr>oi_product = ''64b000000000000000000001'', oi_name = ''Coffee'', oi_price = 500,
                oi_quantity = 3, oi_size = ''250g'', oi_image = ''/img/house.jpg'',
                oi_itemTotal = 1500\<rparr>,
               \<lparr>oi_product = ''64b000000000000000000001'', oi_name = ''Coffee'', oi_price = 900,
                oi_quantity = 3, oi_size = ''500g'', oi_image = ''/img/house.jpg'',
                oi_itemTotal = 2700\<rparr>]"
  let ?sus = "[\<lparr>su_productId = ''64b000000000000000000001'', su_quantity = 3,
                su_currentStock = 5\<rparr>,
               \<lparr>su_productId = ''64b000000000000000000001'', su_quantity = 3,
                su_currentStock = 5\<rparr>]"
  have reach: "reachesItemLoop exampleEnv twoSizesRequest exampleAddress ?its ''mpesa''"
    unfolding twoSizesRequest_def by (rule reaches_exampleRequest) simp_all
  have loop: "processItems exampleEnv (products (exampleDb 5)) ?its (0, [], []) =
              Inr (4200, ?ois, ?sus)"
    by (simp add: item_defs truthy_defs example_defs)
  have tot: "\<not> \<bar>calculatedTotal exampleEnv 4200 (r_shippingCost twoSizesRequest) -
               sanitizeAmount exampleEnv (r_totalAmount twoSizesRequest)\<bar> > 1"
    by (simp add: amount_defs twoSizesRequest_def example_defs)
  have val: "orderErrors exampleEnv order = []" for order
    by (simp add: exampleEnv_simps)
  have upd: "map_option (\<lambda>p. (p_stock p, p_inStock p))
               (fst (applyStockUpdates (products (exampleDb 5)) ?sus [])
                  ''64b000000000000000000001'') = Some (- 1, True)"
    by (simp add: findByIdAndUpdate_def Let_def example_defs)
  have result: "createOrder exampleEnv (exampleDb 5) twoSizesRequest =
      (\<lparr>products = fst (applyStockUpdates (products (exampleDb 5)) ?sus []),
        orders = orders (exampleDb 5) @
          [newOrder exampleEnv twoSizesRequest (sanitizedAddress exampleEnv exampleAddress)
             ''mpesa'' 4200 ?ois]\<rparr>,
       Created (newOrder exampleEnv twoSizesRequest (sanitizedAddress exampleEnv exampleAddress)
                  ''mpesa'' 4200 ?ois)
         (snd (applyStockUpdates (products (exampleDb 5)) ?sus [])))"
    unfolding createOrder_reaches_placeOrder [OF reach] loop
    by (simp add: placeOrder_reply [OF tot val] del: applyStockUpdates.simps)
  show ?thesis
    unfolding result stockAfter_def
    by (simp add: upd replyStatus_def del: applyStockUpdates.simps)
qed

text \<open>
  In terms of the invariant: the stored product has a negative stock and is flagged as in
  stock.
\<close>

theorem createOrder_duplicate_product_stock_witness:
  "\<exists>p. products (fst (createOrder exampleEnv (exampleDb 5) twoSizesRequest))
          ''64b000000000000000000001'' = Some p \<and>
        p_stock p < 0 \<and> p_inStock p \<and> p_inStock p \<noteq> (0 < p_stock p)"
  using createOrder_duplicate_product_stock
  by (auto simp: stockAfter_def)

section \<open>Properties of the status update\<close>

text \<open>
  The lookup in \<open>validTransitions\<close> against the table of the specification: the check
  passes exactly on the transitions of the table; outside the table it answers with the
  transition error, unless the current status names an inherited property.
\<close>

lemma transitionCheck_table:
  "transitionCheck current target =
     (if permittedTransition current target then None
      else if current \<in> set objectPrototypeKeys then Some ServerError
      else Some (InvalidTransition current target))"
proof -
  have "current = ''pending'' \<or> current = ''confirmed'' \<or> current = ''processing'' \<or>
        current = ''shipped'' \<or> current = ''delivered'' \<or> current = ''cancelled'' \<or>
        current = ''returned'' \<or>
        (current \<noteq> ''pending'' \<and> current \<noteq> ''confirmed'' \<and> current \<noteq> ''processing'' \<and>
         current \<noteq> ''shipped'' \<and> current \<noteq> ''delivered'' \<and> current \<noteq> ''cancelled'' \<and>
         current \<noteq> ''returned'')"
    by blast
  then show ?thesis
  proof (elim disjE conjE)
    assume "current = ''pending''"
    then show ?thesis
      by (auto simp: transitionCheck_def allowed_def validTransitions_def permittedTransition_def
          objectPrototypeKeys_def)
  next
    assume "current = ''confirmed''"
    then show ?thesis
      by (auto simp: transitionCheck_def allowed_def validTransitions_def permittedTransition_def
          objectPrototypeKeys_def)
  next
    assume "current = ''processing''"
    then show ?thesis
      by (auto simp: transitionCheck_def allowed_def validTransitions_def permittedTransition_def
          objectPrototypeKeys_def)
  next
    assume "current = ''shipped''"
    then show ?thesis
      by (auto simp: transitionCheck_def allowed_def validTransitions_def permittedTransition_def
          objectPrototypeKeys_def)
  next
    assume "current = ''delivered''"
    then show ?thesis
      by (auto simp: transitionCheck_def allowed_def validTransitions_def permittedTransition_def
          objectPrototypeKeys_def)
  next
    assume "current = ''cancelled''"
    then show ?thesis
      by (auto simp: transitionCheck_def allowed_def validTransitions_def permittedTransition_def
          objectPrototypeKeys_def)
  next
    assume "current = ''returned''"
    then show ?thesis
      by (auto simp: transitionCheck_def allowed_def validTransitions_def permittedTransition_def
          objectPrototypeKeys_def)
  next
    assume other: "current \<noteq> ''pending''" "current \<noteq> ''confirmed''" "current \<noteq> ''processing''"
      "current \<noteq> ''shipped''" "current \<noteq> ''delivered''" "current \<noteq> ''cancelled''"
      "current \<noteq> ''returned''"
    then have np: "\<not> permittedTransition current target"
      by (simp add: permittedTransition_def)
    from other have "map_of validTransitions current = None"
      by (simp add: validTransitions_def)
    then have "transitionCheck current target =
        (if current \<in> set objectPrototypeKeys then Some ServerError
         else Some (InvalidTransition current target))"
      by (simp add: transitionCheck_def allowed_def)
    with np show ?thesis by simp
  qed
qed

lemma applyStatusUpdate_cases:
  "applyStatusUpdate env order body =
     (if truthy (b_status body) \<and> Some (o_status order) \<noteq> b_status body \<and>
         \<not> permittedTransition (o_status order) (interpolate (b_status body))
      then (if o_status order \<in> set objectPrototypeKeys then Inl ServerError
            else Inl (InvalidTransition (o_status order) (interpolate (b_status body))))
      else if b_status body = Some ''shipped'' \<and> \<not> truthy (b_trackingNumber body) \<and>
              \<not> truthy (o_trackingNumber order)
      then Inl TrackingRequired
      else Inr (updateFields env order body))"
  by (simp add: applyStatusUpdate_def transitionCheck_table)

lemma updateOrderStatus_found:
  assumes "find (\<lambda>x. o_id x = oid) (orders db) = Some order" and "isObjectId env oid"
  shows "updateOrderStatus env db oid body =
           (case applyStatusUpdate env order body of
              Inl e \<Rightarrow> (db, Failure e)
            | Inr order' \<Rightarrow>
                if orderErrors env order' \<noteq> []
                then (db, Failure (ValidationFailed (orderErrors env order')))
                else (db\<lparr>orders := replaceOrder order' (orders db)\<rparr>, Updated order'))"
  using assms by (simp add: updateOrderStatus_def)

lemma updateOrderStatus_Updated:
  assumes "updateOrderStatus env db oid body = (db', Updated order')"
  obtains order where
    "find (\<lambda>x. o_id x = oid) (orders db) = Some order" "isObjectId env oid"
    "applyStatusUpdate env order body = Inr order'"
    "order' = updateFields env order body"
    "orderErrors env order' = []"
    "db' = db\<lparr>orders := replaceOrder order' (orders db)\<rparr>"
proof -
  from assms have oid: "isObjectId env oid"
    by (auto simp: updateOrderStatus_def split: if_splits)
  from assms oid obtain order where found: "find (\<lambda>x. o_id x = oid) (orders db) = Some order"
    by (cases "find (\<lambda>x. o_id x = oid) (orders db)") (auto simp: updateOrderStatus_def)
  note run = assms [unfolded updateOrderStatus_found [OF found oid]]
  from run have ap: "applyStatusUpdate env order body = Inr order'"
    by (auto split: sum.splits if_splits)
  from ap have uf: "order' = updateFields env order body"
    by (auto simp: applyStatusUpdate_cases split: if_splits)
  from run ap have val: "orderErrors env order' = []"
    by (auto split: if_splits)
  from run ap val have db': "db' = db\<lparr>orders := replaceOrder order' (orders db)\<rparr>"
    by simp
  show thesis
    by (rule that [OF found oid ap uf val db'])
qed

lemma updateFields_id: "o_id (updateFields env order body) = o_id order"
  by (simp add: updateFields_def Let_def)

lemma updateFields_fields:
  "o_status (updateFields env order body) =
     (if truthy (b_status body) then interpolate (b_status body) else o_status order)"
  "o_trackingNumber (updateFields env order body) =
     (if truthy (b_trackingNumber body) then b_trackingNumber body else o_trackingNumber order)"
  "o_statusUpdatedAt (updateFields env order body) = Some (dateNow env)"
  by (simp_all add: updateFields_def Let_def)

lemma updateFields_entry:
  "\<exists>entry. o_trackingHistory (updateFields env order body) = o_trackingHistory order @ [entry] \<and>
           te_status entry = o_status (updateFields env order body) \<and>
           te_timestamp entry = dateNow env"
  by (simp add: updateFields_def Let_def historyEntry_def orString_def truthy_def interpolate_def
      split: option.splits)

lemma find_replaceOrder:
  assumes "find (\<lambda>x. o_id x = oid) os = Some order" and "o_id order' = o_id order"
  shows "find (\<lambda>x. o_id x = oid) (replaceOrder order' os) = Some order'"
proof -
  from assms(1) have oid: "o_id order = oid"
    by (auto simp: find_Some_iff)
  from assms(1) show ?thesis
    unfolding replaceOrder_def
  proof (induction os)
    case Nil
    then show ?case by simp
  next
    case (Cons x xs)
    then show ?case
      using assms(2) oid by (auto split: if_splits)
  qed
qed

subsection \<open>The transition table\<close>

text \<open>
  C4. For an order found in the database and a target status given in the request: when
  the target differs from the current status, \<^verbatim>\<open>updateOrderStatus\<close> succeeds only if
  the transition is in the permitted table; outside the table it fails and leaves the
  database unchanged, with the 400 answer that names both statuses, or, when the stored
  status is the name of a property inherited from \<^verbatim>\<open>Object.prototype\<close>, with the
  500 of the TypeError raised by the lookup. Out of \<^verbatim>\<open>cancelled\<close> and
  \<^verbatim>\<open>returned\<close> every such transition fails with the transition error. When the
  target equals the current status the transition check does not apply: the call fails
  neither with a transition error nor with that TypeError.
\<close>

theorem updateOrderStatus_transitions:
  assumes "find (\<lambda>x. o_id x = oid) (orders db) = Some order" and "isObjectId env oid"
    and "b_status body = Some target" and "target \<noteq> []"
  shows "(target \<noteq> o_status order \<and> \<not> permittedTransition (o_status order) target \<longrightarrow>
            (\<exists>e. updateOrderStatus env db oid body = (db, Failure e)) \<and>
            (o_status order \<notin> set objectPrototypeKeys \<longrightarrow>
               updateOrderStatus env db oid body =
                 (db, Failure (InvalidTransition (o_status order) target)) \<and>
               statusCode (InvalidTransition (o_status order) target) = 400) \<and>
            (o_status order \<in> set objectPrototypeKeys \<longrightarrow>
               updateOrderStatus env db oid body = (db, Failure ServerError))) \<and>
         (target \<noteq> o_status order \<and> (\<exists>db' order'. updateOrderStatus env db oid body = (db', Updated order')) \<longrightarrow>
            permittedTransition (o_status order) target) \<and>
         (target \<noteq> o_status order \<and> (o_status order = ''cancelled'' \<or> o_status order = ''returned'') \<longrightarrow>
            updateOrderStatus env db oid body =
              (db, Failure (InvalidTransition (o_status order) target))) \<and>
         (target = o_status order \<longrightarrow>
            (\<forall>c t. snd (updateOrderStatus env db oid body) \<noteq> Failure (InvalidTransition c t)) \<and>
            snd (updateOrderStatus env db oid body) \<noteq> Failure ServerError)"
proof -
  note run = updateOrderStatus_found [OF assms(1,2), of body]
  have truthy: "truthy (b_status body)" and inter: "interpolate (b_status body) = target"
    using assms(3,4) by (simp_all add: truthy_def interpolate_def)
  have reject: "updateOrderStatus env db oid body =
                  (db, Failure (if o_status order \<in> set objectPrototypeKeys then ServerError
                                else InvalidTransition (o_status order) target))"
    if "target \<noteq> o_status order" "\<not> permittedTransition (o_status order) target"
  proof -
    from that assms(3) truthy inter
    have "applyStatusUpdate env order body =
            Inl (if o_status order \<in> set objectPrototypeKeys then ServerError
                 else InvalidTransition (o_status order) target)"
      by (auto simp: applyStatusUpdate_cases)
    then show ?thesis by (simp add: run)
  qed
  have c1: "target \<noteq> o_status order \<and> \<not> permittedTransition (o_status order) target \<longrightarrow>
            (\<exists>e. updateOrderStatus env db oid body = (db, Failure e)) \<and>
            (o_status order \<notin> set objectPrototypeKeys \<longrightarrow>
               updateOrderStatus env db oid body =
                 (db, Failure (InvalidTransition (o_status order) target)) \<and>
               statusCode (InvalidTransition (o_status order) target) = 400) \<and>
            (o_status order \<in> set objectPrototypeKeys \<longrightarrow>
               updateOrderStatus env db oid body = (db, Failure ServerError))"
    using reject by simp
  have c2: "target \<noteq> o_status order \<and> (\<exists>db' order'. updateOrderStatus env db oid body = (db', Updated order')) \<longrightarrow>
            permittedTransition (o_status order) target"
  proof (intro impI, elim conjE exE)
    fix db' order'
    assume ne: "target \<noteq> o_status order"
      and ok: "updateOrderStatus env db oid body = (db', Updated order')"
    show "permittedTransition (o_status order) target"
    proof (rule ccontr)
      assume "\<not> permittedTransition (o_status order) target"
      from reject [OF ne this] ok show False by simp
    qed
  qed
  have c3: "target \<noteq> o_status order \<and> (o_status order = ''cancelled'' \<or> o_status order = ''returned'') \<longrightarrow>
            updateOrderStatus env db oid body =
              (db, Failure (InvalidTransition (o_status order) target))"
  proof
    assume h: "target \<noteq> o_status order \<and> (o_status order = ''cancelled'' \<or> o_status order = ''returned'')"
    then have np: "\<not> permittedTransition (o_status order) target"
      by (auto simp: permittedTransition_def)
    from h have own: "o_status order \<notin> set objectPrototypeKeys"
      by (auto simp: objectPrototypeKeys_def)
    from h np own show "updateOrderStatus env db oid body =
              (db, Failure (InvalidTransition (o_status order) target))"
      by (simp add: reject)
  qed
  have c4: "target = o_status order \<longrightarrow>
            (\<forall>c t. snd (updateOrderStatus env db oid body) \<noteq> Failure (InvalidTransition c t)) \<and>
            snd (updateOrderStatus env db oid body) \<noteq> Failure ServerError"
  proof
    assume "target = o_status order"
    with assms(3) have "applyStatusUpdate env order body = Inl TrackingRequired \<or>
        applyStatusUpdate env order body = Inr (updateFields env order body)"
      by (auto simp: applyStatusUpdate_cases)
    then show "(\<forall>c t. snd (updateOrderStatus env db oid body) \<noteq> Failure (InvalidTransition c t)) \<and>
            snd (updateOrderStatus env db oid body) \<noteq> Failure ServerError"
      by (auto simp: run split: if_splits)
  qed
  show ?thesis
    by (rule conjI [OF c1 conjI [OF c2 conjI [OF c3 c4]]])
qed

lemma applyStatusUpdate_accepts:
  assumes "b_status body = Some target" and "target \<noteq> []"
    and "target = o_status order \<or> permittedTransition (o_status order) target"
    and "target = ''shipped'' \<longrightarrow> truthy (b_trackingNumber body) \<or> truthy (o_trackingNumber order)"
  shows "applyStatusUpdate env order body = Inr (updateFields env order body)"
  using assms by (auto simp: applyStatusUpdate_cases interpolate_def)

lemma updateOrderStatus_accepts:
  assumes "find (\<lambda>x. o_id x = oid) (orders db) = Some order" and "isObjectId env oid"
    and "applyStatusUpdate env order body = Inr (updateFields env order body)"
    and "orderErrors env (updateFields env order body) = []"
  shows "updateOrderStatus env db oid body =
           (db\<lparr>orders := replaceOrder (updateFields env order body) (orders db)\<rparr>,
            Updated (updateFields env order body))"
  using assms(3,4) by (simp add: updateOrderStatus_found [OF assms(1,2)])

lemma example_order_found:
  "find (\<lambda>x. o_id x = ''65a000000000000000000001'') (orders codDb) = Some codOrder"
  "find (\<lambda>x. o_id x = ''65a000000000000000000001'') (orders cancelledDb) =
     Some (codOrder\<lparr>o_status := ''cancelled''\<rparr>)"
  "find (\<lambda>x. o_id x = ''65a000000000000000000001'') (orders constructorDb) =
     Some (codOrder\<lparr>o_status := ''constructor''\<rparr>)"
  "isObjectId exampleEnv ''65a000000000000000000001''"
  "o_status codOrder = ''confirmed''"
  "o_trackingNumber codOrder = None"
  by (simp_all add: codDb_def cancelledDb_def constructorDb_def codOrder_def exampleEnv_simps
      isHexChar_def)

text \<open>
  On the confirmed order of the example: \<^verbatim>\<open>pending\<close> is refused,
  \<^verbatim>\<open>processing\<close> is accepted, \<^verbatim>\<open>confirmed\<close> again passes without a transition
  check; once the order is cancelled, \<^verbatim>\<open>confirmed\<close> is refused; and with the
  stored status \<^verbatim>\<open>constructor\<close> a request for \<^verbatim>\<open>confirmed\<close> ends in the 500.
\<close>

theorem updateOrderStatus_transitions_witness:
  "updateOrderStatus exampleEnv codDb ''65a000000000000000000001'' (statusBody ''pending'' None) =
     (codDb, Failure (InvalidTransition ''confirmed'' ''pending'')) \<and>
   (\<exists>db' order'. updateOrderStatus exampleEnv codDb ''65a000000000000000000001''
        (statusBody ''processing'' None) = (db', Updated order')) \<and>
   permittedTransition ''confirmed'' ''processing'' \<and>
   updateOrderStatus exampleEnv cancelledDb ''65a000000000000000000001''
       (statusBody ''confirmed'' None) =
     (cancelledDb, Failure (InvalidTransition ''cancelled'' ''confirmed'')) \<and>
   updateOrderStatus exampleEnv constructorDb ''65a000000000000000000001''
       (statusBody ''confirmed'' None) =
     (constructorDb, Failure ServerError) \<and>
   (\<forall>c t. snd (updateOrderStatus exampleEnv codDb ''65a000000000000000000001''
       (statusBody ''confirmed'' None)) \<noteq> Failure (InvalidTransition c t))"
proof -
  let ?oid = "''65a000000000000000000001''"
  have st: "b_status (statusBody t None) = Some t" for t
    by (simp add: statusBody_def)
  have w1: "updateOrderStatus exampleEnv codDb ?oid (statusBody ''pending'' None) =
              (codDb, Failure (InvalidTransition ''confirmed'' ''pending''))"
    using updateOrderStatus_transitions [OF example_order_found(1,4) st, of "''pending''"]
    by (simp add: example_order_found permittedTransition_def objectPrototypeKeys_def)
  have ok: "\<exists>db' order'. updateOrderStatus exampleEnv codDb ?oid
        (statusBody ''processing'' None) = (db', Updated order')"
  proof -
    have "applyStatusUpdate exampleEnv codOrder (statusBody ''processing'' None) =
            Inr (updateFields exampleEnv codOrder (statusBody ''processing'' None))"
      by (rule applyStatusUpdate_accepts [OF st])
         (simp_all add: example_order_found permittedTransition_def)
    from updateOrderStatus_accepts [OF example_order_found(1,4) this]
    show ?thesis by (simp add: exampleEnv_simps)
  qed
  have w2: "permittedTransition ''confirmed'' ''processing''"
    using updateOrderStatus_transitions [OF example_order_found(1,4) st, of "''processing''"] ok
    by (simp add: example_order_found)
  have w3: "updateOrderStatus exampleEnv cancelledDb ?oid (statusBody ''confirmed'' None) =
              (cancelledDb, Failure (InvalidTransition ''cancelled'' ''confirmed''))"
    using updateOrderStatus_transitions [OF example_order_found(2,4) st, of "''confirmed''"]
    by simp
  have w4: "updateOrderStatus exampleEnv constructorDb ?oid (statusBody ''confirmed'' None) =
              (constructorDb, Failure ServerError)"
    using updateOrderStatus_transitions [OF example_order_found(3,4) st, of "''confirmed''"]
    by (simp add: permittedTransition_def objectPrototypeKeys_def)
  have w5: "\<forall>c t. snd (updateOrderStatus exampleEnv codDb ?oid (statusBody ''confirmed'' None)) \<noteq>
              Failure (InvalidTransition c t)"
    using updateOrderStatus_transitions [OF example_order_found(1,4) st, of "''confirmed''"]
    by (simp add: example_order_found)
  show ?thesis
    by (rule conjI [OF w1 conjI [OF ok conjI [OF w2 conjI [OF w3 conjI [OF w4 w5]]]]])
qed

subsection \<open>The tracking number\<close>

text \<open>
  The tracking-number rule for the target status \<^verbatim>\<open>shipped\<close>, on an order found in
  the database. Without a tracking number on the order or in the request the call fails
  and leaves the database unchanged; the failure is a 400 error as long as the stored
  status is not the name of an inherited property. With a tracking number in the request,
  a permitted transition (or an order that is already shipped) and a document the Order
  schema accepts, the call succeeds and the stored order carries the supplied number.
\<close>

lemma updateOrderStatus_shipped_rule:
  assumes "find (\<lambda>x. o_id x = oid) (orders db) = Some order" and "isObjectId env oid"
    and "b_status body = Some ''shipped''"
  shows "(\<not> truthy (b_trackingNumber body) \<and> \<not> truthy (o_trackingNumber order) \<longrightarrow>
            (\<exists>e. updateOrderStatus env db oid body = (db, Failure e) \<and>
                 (o_status order \<notin> set objectPrototypeKeys \<longrightarrow> statusCode e = 400))) \<and>
         (truthy (b_trackingNumber body) \<and>
          (o_status order = ''shipped'' \<or> permittedTransition (o_status order) ''shipped'') \<and>
          orderErrors env (updateFields env order body) = [] \<longrightarrow>
            (\<exists>db' order'. updateOrderStatus env db oid body = (db', Updated order') \<and>
               o_status order' = ''shipped'' \<and>
               o_trackingNumber order' = b_trackingNumber body \<and>
               find (\<lambda>x. o_id x = oid) (orders db') = Some order'))"
proof (intro conjI impI)
  assume none: "\<not> truthy (b_trackingNumber body) \<and> \<not> truthy (o_trackingNumber order)"
  with assms(3) have
    "applyStatusUpdate env order body =
       Inl (if o_status order \<in> set objectPrototypeKeys then ServerError
            else InvalidTransition (o_status order) ''shipped'') \<or>
     applyStatusUpdate env order body = Inl TrackingRequired"
    by (auto simp: applyStatusUpdate_cases interpolate_def)
  then show "\<exists>e. updateOrderStatus env db oid body = (db, Failure e) \<and>
                 (o_status order \<notin> set objectPrototypeKeys \<longrightarrow> statusCode e = 400)"
    by (auto simp: updateOrderStatus_found [OF assms(1,2)])
next
  assume given: "truthy (b_trackingNumber body) \<and>
          (o_status order = ''shipped'' \<or> permittedTransition (o_status order) ''shipped'') \<and>
          orderErrors env (updateFields env order body) = []"
  let ?o = "updateFields env order body"
  have "applyStatusUpdate env order body = Inr ?o"
    by (rule applyStatusUpdate_accepts [OF assms(3)]) (use given in auto)
  from updateOrderStatus_accepts [OF assms(1,2) this] given
  have run: "updateOrderStatus env db oid body =
               (db\<lparr>orders := replaceOrder ?o (orders db)\<rparr>, Updated ?o)"
    by simp
  have st: "o_status ?o = ''shipped''"
    using assms(3) by (simp add: updateFields_fields truthy_def interpolate_def)
  have tn: "o_trackingNumber ?o = b_trackingNumber body"
    using given by (simp add: updateFields_fields)
  have stored: "find (\<lambda>x. o_id x = oid) (orders (db\<lparr>orders := replaceOrder ?o (orders db)\<rparr>)) = Some ?o"
    using find_replaceOrder [OF assms(1) updateFields_id] by simp
  show "\<exists>db' order'. updateOrderStatus env db oid body = (db', Updated order') \<and>
               o_status order' = ''shipped'' \<and>
               o_trackingNumber order' = b_trackingNumber body \<and>
               find (\<lambda>x. o_id x = oid) (orders db') = Some order'"
    using run st tn stored by blast
qed

text \<open>
  The confirmed order of the example has no tracking number: marking it shipped without
  one is refused with 400, and with the number TRK-1 it succeeds and stores the number.
\<close>

lemma updateOrderStatus_shipped_rule_example:
  "(\<exists>e. updateOrderStatus exampleEnv codDb ''65a000000000000000000001''
          (statusBody ''shipped'' None) = (codDb, Failure e) \<and> statusCode e = 400) \<and>
   (\<exists>db' order'. updateOrderStatus exampleEnv codDb ''65a000000000000000000001''
          (statusBody ''shipped'' (Some ''TRK-1'')) = (db', Updated order') \<and>
        o_status order' = ''shipped'' \<and>
        o_trackingNumber order' = Some ''TRK-1'' \<and>
        find (\<lambda>x. o_id x = ''65a000000000000000000001'') (orders db') = Some order')"
proof -
  have st: "b_status (statusBody ''shipped'' tn) = Some ''shipped''" for tn
    by (simp add: statusBody_def)
  have w1: "\<exists>e. updateOrderStatus exampleEnv codDb ''65a000000000000000000001''
          (statusBody ''shipped'' None) = (codDb, Failure e) \<and> statusCode e = 400"
    using updateOrderStatus_shipped_rule [OF example_order_found(1,4) st, of None]
    by (simp add: example_order_found statusBody_def truthy_def objectPrototypeKeys_def)
  have w2: "\<exists>db' order'. updateOrderStatus exampleEnv codDb ''65a000000000000000000001''
          (statusBody ''shipped'' (Some ''TRK-1'')) = (db', Updated order') \<and>
        o_status order' = ''shipped'' \<and>
        o_trackingNumber order' = Some ''TRK-1'' \<and>
        find (\<lambda>x. o_id x = ''65a000000000000000000001'') (orders db') = Some order'"
    using updateOrderStatus_shipped_rule [OF example_order_found(1,4) st, of "Some ''TRK-1''"]
    by (simp add: example_order_found statusBody_def truthy_def permittedTransition_def
        exampleEnv_simps)
  show ?thesis
    by (rule conjI [OF w1 w2])
qed

text \<open>
  C5 fails on an order whose stored status is the name of an inherited property. Such a
  status is stored by the status handler of the admin controller, which runs no
  validator. For the order of the example with status \<^verbatim>\<open>constructor\<close> and no
  tracking number, a request for \<^verbatim>\<open>shipped\<close> without a tracking number is answered
  with the 500 of the TypeError raised in the transition check, not with a 400 error:
  \<^verbatim>\<open>validTransitions['constructor'] || []\<close> is a function, and
  \<^verbatim>\<open>allowed.includes\<close> is not.
\<close>

theorem updateOrderStatus_shipped_inherited_status:
  "o_trackingNumber (codOrder\<lparr>o_status := ''constructor''\<rparr>) = None \<and>
   updateOrderStatus exampleEnv constructorDb ''65a000000000000000000001''
       (statusBody ''shipped'' None) =
     (constructorDb, Failure ServerError) \<and>
   statusCode ServerError = 500"
proof -
  have tn: "o_trackingNumber (codOrder\<lparr>o_status := ''constructor''\<rparr>) = None"
    by (simp add: codOrder_def)
  have "applyStatusUpdate exampleEnv (codOrder\<lparr>o_status := ''constructor''\<rparr>)
          (statusBody ''shipped'' None) = Inl ServerError"
    by (simp add: applyStatusUpdate_cases statusBody_def truthy_def interpolate_def
        permittedTransition_def objectPrototypeKeys_def)
  then have run: "updateOrderStatus exampleEnv constructorDb ''65a000000000000000000001''
       (statusBody ''shipped'' None) = (constructorDb, Failure ServerError)"
    by (simp add: updateOrderStatus_found [OF example_order_found(3,4)])
  show ?thesis
    using tn run by simp
qed

text \<open>The answer to that request carries the status 500.\<close>

theorem updateOrderStatus_shipped_inherited_status_witness:
  "replyStatus (snd (updateOrderStatus exampleEnv constructorDb ''65a000000000000000000001''
       (statusBody ''shipped'' None))) = 500"
  using updateOrderStatus_shipped_inherited_status
  by (simp add: replyStatus_def)

subsection \<open>The tracking history\<close>

text \<open>
  C10. Every successful call of \<^verbatim>\<open>updateOrderStatus\<close> appends exactly one entry to
  the tracking history of the order and leaves the entries before it as they were; the
  entry carries the resulting status, and \<^verbatim>\<open>statusUpdatedAt\<close> is set. This also
  happens when the requested status equals the current one: such a call succeeds (for
  \<^verbatim>\<open>shipped\<close>, given a tracking number; the Order schema accepting the document),
  keeps the status, and records the entry.
\<close>

theorem updateOrderStatus_appends_history:
  "(updateOrderStatus env db oid body = (db', Updated order') \<longrightarrow>
      (\<exists>order entry.
         find (\<lambda>x. o_id x = oid) (orders db) = Some order \<and>
         o_trackingHistory order' = o_trackingHistory order @ [entry] \<and>
         te_status entry = o_status order' \<and>
         o_statusUpdatedAt order' = Some (dateNow env) \<and>
         find (\<lambda>x. o_id x = oid) (orders db') = Some order')) \<and>
   (find (\<lambda>x. o_id x = oid) (orders db) = Some current \<and> isObjectId env oid \<and>
    b_status body = Some (o_status current) \<and> o_status current \<noteq> [] \<and>
    (o_status current = ''shipped'' \<longrightarrow>
       truthy (b_trackingNumber body) \<or> truthy (o_trackingNumber current)) \<and>
    orderErrors env (updateFields env current body) = [] \<longrightarrow>
      (\<exists>db2 order2 entry.
         updateOrderStatus env db oid body = (db2, Updated order2) \<and>
         o_status order2 = o_status current \<and>
         o_trackingHistory order2 = o_trackingHistory current @ [entry] \<and>
         o_statusUpdatedAt order2 = Some (dateNow env)))"
proof (intro conjI impI)
  assume "updateOrderStatus env db oid body = (db', Updated order')"
  then obtain order where
    found: "find (\<lambda>x. o_id x = oid) (orders db) = Some order"
    and uf: "order' = updateFields env order body"
    and db': "db' = db\<lparr>orders := replaceOrder order' (orders db)\<rparr>"
    by (rule updateOrderStatus_Updated)
  from updateFields_entry [of env order body] obtain entry where
    entry: "o_trackingHistory order' = o_trackingHistory order @ [entry]"
      "te_status entry = o_status order'"
    unfolding uf by blast
  have at: "o_statusUpdatedAt order' = Some (dateNow env)"
    by (simp add: uf updateFields_fields)
  have stored: "find (\<lambda>x. o_id x = oid) (orders db') = Some order'"
    using find_replaceOrder [OF found, of order'] by (simp add: db' uf updateFields_id)
  show "\<exists>order entry.
         find (\<lambda>x. o_id x = oid) (orders db) = Some order \<and>
         o_trackingHistory order' = o_trackingHistory order @ [entry] \<and>
         te_status entry = o_status order' \<and>
         o_statusUpdatedAt order' = Some (dateNow env) \<and>
         find (\<lambda>x. o_id x = oid) (orders db') = Some order'"
    using found entry at stored by blast
next
  assume h: "find (\<lambda>x. o_id x = oid) (orders db) = Some current \<and> isObjectId env oid \<and>
    b_status body = Some (o_status current) \<and> o_status current \<noteq> [] \<and>
    (o_status current = ''shipped'' \<longrightarrow>
       truthy (b_trackingNumber body) \<or> truthy (o_trackingNumber current)) \<and>
    orderErrors env (updateFields env current body) = []"
  let ?o = "updateFields env current body"
  from h have found: "find (\<lambda>x. o_id x = oid) (orders db) = Some current"
    and oid: "isObjectId env oid" and st: "b_status body = Some (o_status current)"
    and ne: "o_status current \<noteq> []"
    and val: "orderErrors env ?o = []"
    by simp_all
  have "applyStatusUpdate env current body = Inr ?o"
    by (rule applyStatusUpdate_accepts [OF st ne]) (use h in auto)
  from updateOrderStatus_accepts [OF found oid this val]
  have run: "updateOrderStatus env db oid body =
               (db\<lparr>orders := replaceOrder ?o (orders db)\<rparr>, Updated ?o)" .
  have same: "o_status ?o = o_status current"
    using st by (simp add: updateFields_fields interpolate_def)
  from updateFields_entry [of env current body] obtain entry where
    entry: "o_trackingHistory ?o = o_trackingHistory current @ [entry]"
    by blast
  have at: "o_statusUpdatedAt ?o = Some (dateNow env)"
    by (simp add: updateFields_fields)
  show "\<exists>db2 order2 entry.
         updateOrderStatus env db oid body = (db2, Updated order2) \<and>
         o_status order2 = o_status current \<and>
         o_trackingHistory order2 = o_trackingHistory current @ [entry] \<and>
         o_statusUpdatedAt order2 = Some (dateNow env)"
    using run same entry at by blast
qed

text \<open>
  Requesting \<^verbatim>\<open>confirmed\<close> for the confirmed order of the example: the call
  succeeds, the status stays, and the history grows from one entry to two.
\<close>

theorem updateOrderStatus_appends_history_witness:
  "length (o_trackingHistory codOrder) = 1 \<and>
   (\<exists>db2 order2 entry.
      updateOrderStatus exampleEnv codDb ''65a000000000000000000001''
        (statusBody ''confirmed'' None) = (db2, Updated order2) \<and>
      o_status order2 = ''confirmed'' \<and>
      o_trackingHistory order2 = o_trackingHistory codOrder @ [entry] \<and>
      o_statusUpdatedAt order2 = Some 1700000000000)"
proof -
  have len: "length (o_trackingHistory codOrder) = 1"
    by (simp add: codOrder_def)
  have w: "\<exists>db2 order2 entry.
      updateOrderStatus exampleEnv codDb ''65a000000000000000000001''
        (statusBody ''confirmed'' None) = (db2, Updated order2) \<and>
      o_status order2 = ''confirmed'' \<and>
      o_trackingHistory order2 = o_trackingHistory codOrder @ [entry] \<and>
      o_statusUpdatedAt order2 = Some 1700000000000"
    using conjunct2 [OF updateOrderStatus_appends_history
            [of exampleEnv codDb "''65a000000000000000000001''" "statusBody ''confirmed'' None"
                _ _ codOrder]]
    by (simp add: example_order_found statusBody_def exampleEnv_simps isHexChar_def)
  show ?thesis
    by (rule conjI [OF len w])
qed

end
